theory Spec2Isabelle
  imports Complex_Main "HOL-Library.Sublist"
begin

section \<open>Python values and built-ins used by the article coach\<close>

text \<open>
  Text is a \<^typ>\<open>string\<close>, one \<^typ>\<open>char\<close> per code point, restricted to the code points
  below 256.  Python integers are \<^typ>\<open>int\<close> (or \<^typ>\<open>nat\<close> where the source takes a
  \<open>len\<close>), Python floats are modelled by the real number they denote: comparisons of
  finite floats agree with the comparisons of their values, rounding of float arithmetic
  is not modelled.  Exceptions are values of \<open>py_error\<close>.
\<close>

datatype py_error = TypeError | ValueError

text \<open>\<open>str.isspace\<close> on one character: the twelve whitespace code points below 256.\<close>

definition isspace :: "char \<Rightarrow> bool" where
  "isspace c = (c \<in> set [CHR 0x09, CHR 0x0A, CHR 0x0B, CHR 0x0C, CHR 0x0D, CHR 0x1C,
                          CHR 0x1D, CHR 0x1E, CHR 0x1F, CHR 0x20, CHR 0x85, CHR 0xA0])"

text \<open>\<open>s.strip()\<close>: leading and trailing whitespace removed.\<close>

definition strip :: "string \<Rightarrow> string" where
  "strip s = rev (dropWhile isspace (rev (dropWhile isspace s)))"

text \<open>\<open>s.split()\<close>: the maximal runs of non-whitespace, in order; \<open>w\<close> is the run being read.\<close>

fun split_ws_acc :: "string \<Rightarrow> string \<Rightarrow> string list" where
  "split_ws_acc [] w = (if w = [] then [] else [w])"
| "split_ws_acc (c # cs) w =
     (if isspace c then (if w = [] then split_ws_acc cs [] else w # split_ws_acc cs [])
      else split_ws_acc cs (w @ [c]))"

definition split_ws :: "string \<Rightarrow> string list" where
  "split_ws s = split_ws_acc s []"

text \<open>
  \<open>s.split(sep)\<close> for a non-empty separator: cut at every non-overlapping occurrence of
  \<open>sep\<close>, scanning from the left; empty pieces are kept.  \<open>cur\<close> is the piece being read.
  Python raises \<open>ValueError\<close> on the empty separator.
\<close>

function split_sep_acc :: "string \<Rightarrow> string \<Rightarrow> string \<Rightarrow> string list" where
  "split_sep_acc sep [] cur = [cur]"
| "split_sep_acc sep (c # cs) cur =
     (if sep \<noteq> [] \<and> prefix sep (c # cs)
      then cur # split_sep_acc sep (drop (length sep) (c # cs)) []
      else split_sep_acc sep cs (cur @ [c]))"
  by pat_completeness auto
termination
  by (relation "measure (\<lambda>(sep, s, cur). length s)") auto

definition split_sep :: "string \<Rightarrow> string \<Rightarrow> py_error + string list" where
  "split_sep sep s = (if sep = [] then Inl ValueError else Inr (split_sep_acc sep s []))"

text \<open>The two separators the source uses: a blank line and a line break.\<close>

definition split_blank :: "string \<Rightarrow> string list" where
  "split_blank s = split_sep_acc [CHR 0x0A, CHR 0x0A] s []"

definition split_lines :: "string \<Rightarrow> string list" where
  "split_lines s = split_sep_acc [CHR 0x0A] s []"

text \<open>\<open>sep.join(xs)\<close>.\<close>

fun join :: "string \<Rightarrow> string list \<Rightarrow> string" where
  "join sep [] = []"
| "join sep [x] = x"
| "join sep (x # y # ys) = x @ sep @ join sep (y # ys)"

text \<open>\<open>sub in s\<close> on strings: \<open>sub\<close> occurs in \<open>s\<close> as a contiguous block.\<close>

fun str_contains :: "string \<Rightarrow> string \<Rightarrow> bool" where
  "str_contains sub [] = (sub = [])"
| "str_contains sub (c # cs) = (prefix sub (c # cs) \<or> str_contains sub cs)"

text \<open>
  \<open>s.replace(old, new, 1)\<close>: the first occurrence of \<open>old\<close> replaced, \<open>s\<close> itself when
  there is none.  An empty \<open>old\<close> occurs at position 0.
\<close>

fun replace_first :: "string \<Rightarrow> string \<Rightarrow> string \<Rightarrow> string" where
  "replace_first old new [] = (if old = [] then new else [])"
| "replace_first old new (c # cs) =
     (if prefix old (c # cs) then new @ drop (length old) (c # cs)
      else c # replace_first old new cs)"

text \<open>\<open>str(n)\<close> for a non-negative integer, and for any integer.\<close>

fun str_nat :: "nat \<Rightarrow> string" where
  "str_nat n = (if n < 10 then [''0123456789'' ! n]
                else str_nat (n div 10) @ [''0123456789'' ! (n mod 10)])"

declare str_nat.simps [simp del]

definition str_int :: "int \<Rightarrow> string" where
  "str_int i = (if i < 0 then ''-'' @ str_nat (nat (- i)) else str_nat (nat i))"

text \<open>
  \<open>format(x, '.1f')\<close>: the value rounded to one decimal, ties to the even digit, as the
  correctly rounded rendering of a float's exact value is.
\<close>

definition round_half_even :: "real \<Rightarrow> int" where
  "round_half_even x =
     (let f = \<lfloor>x\<rfloor>; d = x - of_int f
      in if d < 1 / 2 then f else if 1 / 2 < d then f + 1 else if even f then f else f + 1)"

definition fmt_1f :: "real \<Rightarrow> string" where
  "fmt_1f x =
     (let n = nat (round_half_even (\<bar>x\<bar> * 10))
      in (if x < 0 then ''-'' else []) @ str_nat (n div 10) @ ''.'' @ str_nat (n mod 10))"

text \<open>\<open>s.lower()\<close> on the code points below 256.\<close>

definition lower_chr :: "char \<Rightarrow> char" where
  "lower_chr c =
     (let n = (of_char c :: nat)
      in if (65 \<le> n \<and> n \<le> 90) \<or> (192 \<le> n \<and> n \<le> 222 \<and> n \<noteq> 215) then char_of (n + 32) else c)"

definition lower :: "string \<Rightarrow> string" where
  "lower s = map lower_chr s"

text \<open>\<open>xs[:n]\<close> for any integer \<open>n\<close>: a negative \<open>n\<close> counts from the end.\<close>

definition slice_to :: "int \<Rightarrow> 'a list \<Rightarrow> 'a list" where
  "slice_to n xs = (if 0 \<le> n then take (nat n) xs else take (length xs - nat (- n)) xs)"

text \<open>
  \<open>sorted(xs, key=f, reverse=True)\<close>: descending by key and stable, elements with equal
  keys keep the order they have in \<open>xs\<close>.
\<close>

definition sorted_reverse :: "('a \<Rightarrow> int) \<Rightarrow> 'a list \<Rightarrow> 'a list" where
  "sorted_reverse f xs = sort_key (\<lambda>x. - f x) xs"

text \<open>
  \<open>Counter(xs).most_common(n)\<close>: the distinct elements with their counts, by count
  descending, elements of equal count in the order of their first occurrence.
\<close>

definition counter :: "'a list \<Rightarrow> ('a \<times> nat) list" where
  "counter xs = map (\<lambda>w. (w, count_list xs w)) (rev (remdups (rev xs)))"

definition most_common :: "nat \<Rightarrow> 'a list \<Rightarrow> ('a \<times> nat) list" where
  "most_common n xs = take n (sorted_reverse (\<lambda>p. int (snd p)) (counter xs))"

section \<open>The local analyzers (optimization/local_analyzer.py)\<close>

subsection \<open>GrammarAnalyzer\<close>

text \<open>
  A match as LanguageTool returns it, and the dictionary \<open>analyze\<close> builds from it.  The
  grammar engine is external: \<open>tool_check\<close> is the analyzer's \<open>self.tool.check\<close>.
\<close>

record lt_match =
  m_message :: string
  m_context :: string
  m_offset :: int
  m_errorLength :: int
  m_replacements :: "string list"
  m_ruleId :: string

record grammar_issue =
  gi_message :: string
  gi_context :: string
  gi_offset :: int
  gi_length :: int
  gi_replacements :: "string list"
  gi_rule :: string

record issue_breakdown =
  bd_grammar :: nat
  bd_spelling :: nat
  bd_punctuation :: nat

record grammar_analysis =
  grammar_issues :: "grammar_issue list"
  spelling_issues :: "grammar_issue list"
  punctuation_issues :: "grammar_issue list"
  total_issues :: nat
  breakdown :: issue_breakdown

record GrammarAnalyzer =
  tool_check :: "string \<Rightarrow> lt_match list"

definition issue_of_match :: "lt_match \<Rightarrow> grammar_issue" where
  "issue_of_match m =
     \<lparr>gi_message = m_message m, gi_context = m_context m, gi_offset = m_offset m,
      gi_length = m_errorLength m, gi_replacements = take 3 (m_replacements m),
      gi_rule = m_ruleId m\<rparr>"

text \<open>
  The loop over the matches; the accumulator holds \<open>grammar_issues\<close>, \<open>spelling_issues\<close>
  and \<open>punctuation_issues\<close>, each appended to as the source does.
\<close>

fun categorize ::
  "lt_match list \<Rightarrow> grammar_issue list \<times> grammar_issue list \<times> grammar_issue list \<Rightarrow>
   grammar_issue list \<times> grammar_issue list \<times> grammar_issue list" where
  "categorize [] acc = acc"
| "categorize (m # ms) (g, s, p) =
     (if str_contains ''SPELL'' (m_ruleId m) \<or> str_contains ''MORFOLOGIK'' (m_ruleId m)
      then categorize ms (g, s @ [issue_of_match m], p)
      else if str_contains ''PUNCT'' (m_ruleId m) \<or> str_contains ''COMMA'' (m_ruleId m)
      then categorize ms (g, s, p @ [issue_of_match m])
      else categorize ms (g @ [issue_of_match m], s, p))"

definition GrammarAnalyzer_analyze :: "GrammarAnalyzer \<Rightarrow> string \<Rightarrow> grammar_analysis" where
  "GrammarAnalyzer_analyze a text =
     (let matches = tool_check a text;
          (g, s, p) = categorize matches ([], [], [])
      in \<lparr>grammar_issues = g, spelling_issues = s, punctuation_issues = p,
          total_issues = length matches,
          breakdown = \<lparr>bd_grammar = length g, bd_spelling = length s,
                       bd_punctuation = length p\<rparr>\<rparr>)"

subsection \<open>ReadabilityAnalyzer\<close>

text \<open>
  The readability figures come from the external library textstat, taken as a parameter.
  Of the dictionary \<open>analyze\<close> returns, the keys the coach reads are kept.
\<close>

record ReadabilityAnalyzer =
  textstat_flesch_reading_ease :: "string \<Rightarrow> real"
  textstat_avg_sentence_length :: "string \<Rightarrow> real"
  textstat_difficult_words :: "string \<Rightarrow> int"

record readability_analysis =
  flesch_reading_ease :: real
  avg_sentence_length :: real
  difficult_words :: int
  reading_ease_interpretation :: string

definition interpret_reading_ease :: "real \<Rightarrow> string" where
  "interpret_reading_ease score =
     (if score \<ge> 90 then ''Very Easy''
      else if score \<ge> 80 then ''Easy''
      else if score \<ge> 70 then ''Fairly Easy''
      else if score \<ge> 60 then ''Standard''
      else if score \<ge> 50 then ''Fairly Difficult''
      else if score \<ge> 30 then ''Difficult''
      else ''Very Difficult'')"

definition ReadabilityAnalyzer_analyze ::
  "ReadabilityAnalyzer \<Rightarrow> string \<Rightarrow> readability_analysis" where
  "ReadabilityAnalyzer_analyze a text =
     \<lparr>flesch_reading_ease = textstat_flesch_reading_ease a text,
      avg_sentence_length = textstat_avg_sentence_length a text,
      difficult_words = textstat_difficult_words a text,
      reading_ease_interpretation =
        interpret_reading_ease (textstat_flesch_reading_ease a text)\<rparr>"

subsection \<open>WritingQualityAnalyzer\<close>

text \<open>
  The spaCy pipeline \<open>self.nlp\<close> is external and taken as a parameter.  A parsed document
  offers its tokens (\<open>for token in doc\<close>, \<open>len(doc)\<close>) and its sentences (\<open>doc.sents\<close>); of a
  token the attributes the analyzer reads are kept.
\<close>

record token =
  tok_text :: string
  tok_lemma :: string
  tok_pos :: string
  tok_dep :: string
  is_stop :: bool
  is_alpha :: bool

record span =
  span_text :: string
  span_tokens :: "token list"

record doc =
  doc_tokens :: "token list"
  doc_sents :: "span list"

record WritingQualityAnalyzer =
  nlp :: "string \<Rightarrow> doc"

record passive_voice_stats =
  pv_count :: nat
  pv_percentage :: real
  pv_examples :: "string list"
  pv_is_excessive :: bool

record adverb_stats =
  adv_count :: nat
  adv_per_100_words :: real
  adv_most_common :: "(string \<times> nat) list"
  adv_is_excessive :: bool

record weak_verb_stats =
  wv_count :: nat
  wv_total_verbs :: nat
  wv_percentage :: real
  wv_is_excessive :: bool

record repetition_stats =
  rep_repeated_words :: "(string \<times> nat) list"
  rep_total_repetitions :: nat
  rep_is_excessive :: bool

record transition_stats =
  tr_count :: nat
  tr_types_used :: "(string \<times> nat) list"
  tr_variety :: nat

record quality_analysis =
  passive_voice :: passive_voice_stats
  adverbs :: adverb_stats
  weak_verbs :: weak_verb_stats
  repetition :: repetition_stats
  transitions :: transition_stats
  paragraph_count :: nat

text \<open>
  \<open>_detect_passive_voice\<close>: a sentence counts once, at its first token whose dependency
  label is \<open>auxpass\<close>.
\<close>

fun passive_loop :: "span list \<Rightarrow> nat \<times> string list \<Rightarrow> nat \<times> string list" where
  "passive_loop [] acc = acc"
| "passive_loop (sent # sents) (passive_count, passive_sentences) =
     (if list_ex (\<lambda>t. tok_dep t = ''auxpass'') (span_tokens sent)
      then passive_loop sents (passive_count + 1, passive_sentences @ [span_text sent])
      else passive_loop sents (passive_count, passive_sentences))"

definition detect_passive_voice :: "doc \<Rightarrow> passive_voice_stats" where
  "detect_passive_voice d =
     (let (passive_count, passive_sentences) = passive_loop (doc_sents d) (0, []);
          total_sentences = length (doc_sents d);
          percentage = (if total_sentences > 0
                        then real passive_count / real total_sentences * 100 else 0)
      in \<lparr>pv_count = passive_count, pv_percentage = percentage,
          pv_examples = take 5 passive_sentences, pv_is_excessive = (percentage > 10)\<rparr>)"

definition analyze_adverbs :: "doc \<Rightarrow> adverb_stats" where
  "analyze_adverbs d =
     (let adverbs = map tok_text (filter (\<lambda>t. tok_pos t = ''ADV'') (doc_tokens d));
          n = length (doc_tokens d)
      in \<lparr>adv_count = length adverbs,
          adv_per_100_words = (if n > 0 then real (length adverbs) / real n * 100 else 0),
          adv_most_common = most_common 10 adverbs,
          adv_is_excessive = (if n > 0 then real (length adverbs) / real n * 100 > 3
                              else False)\<rparr>)"

definition weak_verb_set :: "string list" where
  "weak_verb_set = [''be'', ''is'', ''are'', ''was'', ''were'', ''been'', ''have'', ''has'',
                    ''had'', ''do'', ''does'', ''did'', ''get'', ''got'', ''make'', ''made'']"

definition detect_weak_verbs :: "doc \<Rightarrow> weak_verb_stats" where
  "detect_weak_verbs d =
     (let weak_verb_count =
            length (filter (\<lambda>t. tok_pos t = ''VERB'' \<and> tok_lemma t \<in> set weak_verb_set)
                           (doc_tokens d));
          total_verbs = length (filter (\<lambda>t. tok_pos t = ''VERB'') (doc_tokens d))
      in \<lparr>wv_count = weak_verb_count, wv_total_verbs = total_verbs,
          wv_percentage = (if total_verbs > 0
                           then real weak_verb_count / real total_verbs * 100 else 0),
          wv_is_excessive = (if total_verbs > 0
                             then real weak_verb_count / real total_verbs * 100 > 30
                             else False)\<rparr>)"

text \<open>
  \<open>_detect_repetition\<close>: the loop over \<open>enumerate(words)\<close>.  \<open>word_positions\<close> maps a word
  to the positions seen so far; every earlier position at most 50 words back adds one
  repetition.
\<close>

fun repetition_loop ::
  "(nat \<times> string) list \<Rightarrow> (string \<Rightarrow> nat list option) \<Rightarrow> (string \<times> nat) list \<Rightarrow>
   (string \<times> nat) list" where
  "repetition_loop [] word_positions repetitions = repetitions"
| "repetition_loop ((i, word) # rest) word_positions repetitions =
     (case word_positions word of
        None \<Rightarrow> repetition_loop rest (word_positions(word \<mapsto> [i])) repetitions
      | Some prev \<Rightarrow>
          repetition_loop rest (word_positions(word \<mapsto> prev @ [i]))
            (repetitions @ map (\<lambda>prev_pos. (word, i - prev_pos))
                               (filter (\<lambda>prev_pos. i - prev_pos \<le> 50) prev)))"

definition detect_repetition :: "doc \<Rightarrow> repetition_stats" where
  "detect_repetition d =
     (let words = map (\<lambda>t. lower (tok_lemma t))
                      (filter (\<lambda>t. \<not> is_stop t \<and> is_alpha t) (doc_tokens d));
          repetitions = repetition_loop (enumerate 0 words) Map.empty []
      in \<lparr>rep_repeated_words = most_common 10 (map fst repetitions),
          rep_total_repetitions = length repetitions,
          rep_is_excessive = (real (length repetitions) > real (length words) * (1 / 10))\<rparr>)"

definition transition_words :: "string list" where
  "transition_words = [''however'', ''therefore'', ''moreover'', ''furthermore'',
     ''consequently'', ''nevertheless'', ''additionally'', ''meanwhile'', ''thus'', ''hence'',
     ''first'', ''second'', ''third'', ''finally'', ''in conclusion'']"

definition analyze_transitions :: "doc \<Rightarrow> transition_stats" where
  "analyze_transitions d =
     (let found_transitions =
            map (\<lambda>t. lower (tok_text t))
                (filter (\<lambda>t. lower (tok_text t) \<in> set transition_words) (doc_tokens d))
      in \<lparr>tr_count = length found_transitions, tr_types_used = counter found_transitions,
          tr_variety = length (remdups found_transitions)\<rparr>)"

text \<open>
  \<open>[p for p in text.split('\n\n') if p.strip()]\<close>: the paragraphs of a text, used by
  \<open>_analyze_paragraphs\<close>, by the structure check and by the validator.
\<close>

definition paragraphs_of :: "string \<Rightarrow> string list" where
  "paragraphs_of text = filter (\<lambda>p. strip p \<noteq> []) (split_blank text)"

text \<open>Of \<open>paragraph_stats\<close> the coach reads \<open>count\<close>, the number of paragraphs.\<close>

definition analyze_paragraphs_count :: "string \<Rightarrow> nat" where
  "analyze_paragraphs_count text = length (paragraphs_of text)"

definition WritingQualityAnalyzer_analyze ::
  "WritingQualityAnalyzer \<Rightarrow> string \<Rightarrow> quality_analysis" where
  "WritingQualityAnalyzer_analyze a text =
     (let d = nlp a text
      in \<lparr>passive_voice = detect_passive_voice d, adverbs = analyze_adverbs d,
          weak_verbs = detect_weak_verbs d, repetition = detect_repetition d,
          transitions = analyze_transitions d,
          paragraph_count = analyze_paragraphs_count text\<rparr>)"

section \<open>Problem detection (coaching/problem_detector.py)\<close>

text \<open>
  The values a \<open>metrics\<close> dictionary holds: integers, floats, lists of strings, lists of
  (word, count) pairs and the (paragraph number, word count) pairs of long paragraphs.
  A dictionary with string keys is an association list read with \<open>dict_get\<close>, the model
  of \<open>d.get(key, default)\<close>.
\<close>

datatype mval =
    MInt int
  | MFloat real
  | MStrs "string list"
  | MCounts "(string \<times> nat) list"
  | MPairs "(nat \<times> nat) list"

type_synonym metrics_dict = "(string \<times> mval) list"

definition dict_get :: "(string \<times> 'v) list \<Rightarrow> string \<Rightarrow> 'v \<Rightarrow> 'v" where
  "dict_get d k dflt = (case map_of d k of None \<Rightarrow> dflt | Some v \<Rightarrow> v)"

text \<open>The dataclass \<open>Issue\<close>; the field \<open>context\<close> is named \<open>issue_context\<close> here.\<close>

record Issue =
  type :: string
  severity :: int
  location :: string
  issue_context :: string
  description :: string
  why :: string
  suggested_approach :: "string list"
  metrics :: metrics_dict

subsection \<open>IssuePrioritizer\<close>

definition SEVERITY_SCORES :: "(string \<times> int) list" where
  "SEVERITY_SCORES =
     [(''spelling'', 10), (''grammar'', 9), (''factual_error'', 10),
      (''sentence_too_long'', 7), (''difficult_words'', 6), (''poor_transitions'', 6),
      (''paragraph_too_long'', 6),
      (''passive_voice'', 5), (''weak_verbs'', 4), (''adverbs'', 3), (''word_repetition'', 4)]"

definition score_issue :: "Issue \<Rightarrow> int" where
  "score_issue issue = dict_get SEVERITY_SCORES (type issue) 3"

definition top_issues :: "Issue list \<Rightarrow> int \<Rightarrow> Issue list" where
  "top_issues issues limit =
     (let sorted_issues = sorted_reverse severity issues;
          important_issues = filter (\<lambda>i. severity i \<ge> 5) sorted_issues
      in slice_to limit important_issues)"

subsection \<open>ProblemDetector\<close>

text \<open>
  An analyzer that failed to initialise is \<open>None\<close>.  The sentiment and linguistic
  analyzers are constructed but never called by the detector and are left out.
\<close>

record ProblemDetector =
  grammar_analyzer :: "GrammarAnalyzer option"
  readability_analyzer :: "ReadabilityAnalyzer option"
  quality_analyzer :: "WritingQualityAnalyzer option"

definition spelling_issue :: "nat \<Rightarrow> grammar_issue \<Rightarrow> Issue" where
  "spelling_issue n spell_issue =
     \<lparr>type = ''spelling'', severity = 10,
      location = ''Character '' @ str_int (gi_offset spell_issue),
      issue_context = gi_context spell_issue,
      description = gi_message spell_issue,
      why = ''Spelling errors hurt credibility and distract readers'',
      suggested_approach =
        [if gi_replacements spell_issue \<noteq> []
         then ''Replace with: '' @ join '', '' (take 3 (gi_replacements spell_issue))
         else ''Check spelling''],
      metrics = [(''issue_count'', MInt (int n))]\<rparr>"

definition grammar_issue_of :: "nat \<Rightarrow> grammar_issue \<Rightarrow> Issue" where
  "grammar_issue_of n gram_issue =
     \<lparr>type = ''grammar'', severity = 9,
      location = ''Character '' @ str_int (gi_offset gram_issue),
      issue_context = gi_context gram_issue,
      description = gi_message gram_issue,
      why = ''Grammar errors reduce clarity and professionalism'',
      suggested_approach =
        [if gi_replacements gram_issue \<noteq> []
         then ''Consider: '' @ join '', '' (take 3 (gi_replacements gram_issue))
         else ''Review grammar rule''],
      metrics = [(''issue_count'', MInt (int n))]\<rparr>"

definition detect_grammar_issues :: "GrammarAnalyzer \<Rightarrow> string \<Rightarrow> Issue list" where
  "detect_grammar_issues a text =
     (let analysis = GrammarAnalyzer_analyze a text
      in map (spelling_issue (length (spelling_issues analysis)))
             (take 5 (spelling_issues analysis))
         @ map (grammar_issue_of (length (grammar_issues analysis)))
               (take 5 (grammar_issues analysis)))"

definition difficult_words_issue :: "readability_analysis \<Rightarrow> Issue" where
  "difficult_words_issue analysis =
     \<lparr>type = ''difficult_words'', severity = 6,
      location = ''Throughout article'',
      issue_context = ''Readability score: '' @ fmt_1f (flesch_reading_ease analysis)
                      @ '' ('' @ reading_ease_interpretation analysis @ '')'',
      description = ''Article is difficult to read'',
      why = ''Lower readability scores mean fewer people can easily understand your writing'',
      suggested_approach =
        [''Use simpler words where possible'',
         ''Break long sentences into shorter ones'',
         ''Target: Flesch Reading Ease above 60 (currently ''
           @ fmt_1f (flesch_reading_ease analysis) @ '')''],
      metrics = [(''flesch_score'', MFloat (flesch_reading_ease analysis)),
                 (''difficult_words'', MInt (difficult_words analysis)),
                 (''avg_sentence_length'', MFloat (avg_sentence_length analysis))]\<rparr>"

definition sentence_too_long_issue :: "readability_analysis \<Rightarrow> Issue" where
  "sentence_too_long_issue analysis =
     \<lparr>type = ''sentence_too_long'', severity = 7,
      location = ''Throughout article'',
      issue_context = ''Average sentence length: '' @ fmt_1f (avg_sentence_length analysis)
                      @ '' words'',
      description = ''Sentences are too long on average'',
      why = ''Long sentences are harder to follow and can lose readers'',
      suggested_approach =
        [''Break long sentences (>25 words) into two shorter ones'',
         ''Use periods instead of commas to separate ideas'',
         ''Target: Average sentence length under 20 words (currently ''
           @ fmt_1f (avg_sentence_length analysis) @ '')''],
      metrics = [(''avg_sentence_length'', MFloat (avg_sentence_length analysis))]\<rparr>"

definition detect_readability_issues :: "ReadabilityAnalyzer \<Rightarrow> string \<Rightarrow> Issue list" where
  "detect_readability_issues a text =
     (let analysis = ReadabilityAnalyzer_analyze a text
      in (if flesch_reading_ease analysis < 50 then [difficult_words_issue analysis] else [])
         @ (if avg_sentence_length analysis > 20 then [sentence_too_long_issue analysis]
            else []))"

definition passive_voice_issue :: "quality_analysis \<Rightarrow> Issue" where
  "passive_voice_issue analysis =
     (let passive_pct = pv_percentage (passive_voice analysis)
      in \<lparr>type = ''passive_voice'', severity = 5,
          location = ''Multiple paragraphs'',
          issue_context = str_nat (length (pv_examples (passive_voice analysis)))
                          @ '' passive constructions found'',
          description = ''Excessive passive voice ('' @ fmt_1f passive_pct @ ''%)'',
          why = ''Passive voice makes writing less direct and engaging. ''
                @ ''Active voice is clearer and stronger.'',
          suggested_approach =
            [''Identify the actor (who did the action)'',
             ''Make the actor the subject of the sentence'',
             ''Use active verbs'',
             ''Target: <10% passive voice (currently '' @ fmt_1f passive_pct @ ''%)''],
          metrics = [(''percentage'', MFloat passive_pct),
                     (''count'', MInt (int (pv_count (passive_voice analysis)))),
                     (''examples'', MStrs (take 3 (pv_examples (passive_voice analysis))))]\<rparr>)"

definition adverbs_issue :: "quality_analysis \<Rightarrow> Issue" where
  "adverbs_issue analysis =
     (let adverb_rate = adv_per_100_words (adverbs analysis)
      in \<lparr>type = ''adverbs'', severity = 3,
          location = ''Throughout article'',
          issue_context = str_nat (adv_count (adverbs analysis)) @ '' adverbs (''
                          @ fmt_1f adverb_rate @ '' per 100 words)'',
          description = ''Too many adverbs'',
          why = ''Excessive adverbs weaken writing. ''
                @ ''Stronger verbs are better than weak verbs + adverbs.'',
          suggested_approach =
            [''Replace 'walked slowly' with 'ambled' or 'strolled'' @ [CHR 0x27],
             ''Remove unnecessary intensifiers like 'very', 'really', 'quite'' @ [CHR 0x27],
             ''Target: <3 adverbs per 100 words (currently '' @ fmt_1f adverb_rate @ '')''],
          metrics = [(''count'', MInt (int (adv_count (adverbs analysis)))),
                     (''rate'', MFloat adverb_rate),
                     (''most_common'', MCounts (take 5 (adv_most_common (adverbs analysis))))]\<rparr>)"

definition weak_verbs_issue :: "quality_analysis \<Rightarrow> Issue" where
  "weak_verbs_issue analysis =
     (let weak_verb_pct = wv_percentage (weak_verbs analysis)
      in \<lparr>type = ''weak_verbs'', severity = 4,
          location = ''Throughout article'',
          issue_context = str_nat (wv_count (weak_verbs analysis)) @ '' weak verbs (''
                          @ fmt_1f weak_verb_pct @ ''%)'',
          description = ''Too many weak verbs (be, have, do, get)'',
          why = ''Weak verbs create passive, lifeless writing. ''
                @ ''Strong verbs make writing vivid.'',
          suggested_approach =
            [''Replace 'is able to' with 'can'' @ [CHR 0x27],
             ''Replace 'has impact on' with 'affects' or 'influences'' @ [CHR 0x27],
             ''Use action verbs instead of 'to be' constructions'',
             ''Target: <30% weak verbs (currently '' @ fmt_1f weak_verb_pct @ ''%)''],
          metrics = [(''percentage'', MFloat weak_verb_pct),
                     (''count'', MInt (int (wv_count (weak_verbs analysis))))]\<rparr>)"

definition word_repetition_issue :: "quality_analysis \<Rightarrow> Issue" where
  "word_repetition_issue analysis =
     \<lparr>type = ''word_repetition'', severity = 4,
      location = ''Multiple sections'',
      issue_context = str_nat (rep_total_repetitions (repetition analysis))
                      @ '' repeated words'',
      description = ''Excessive word repetition'',
      why = ''Repeating the same words too often makes writing monotonous. ''
            @ ''Use synonyms for variety.'',
      suggested_approach =
        [''Use synonyms for variety'',
         ''Rephrase sentences to avoid repetition'',
         ''Most repeated: ''
           @ join '', '' (map (\<lambda>(word, count). word @ '' ('' @ str_nat count @ ''x)'')
                              (take 3 (rep_repeated_words (repetition analysis))))],
      metrics = [(''total_repetitions'',
                    MInt (int (rep_total_repetitions (repetition analysis)))),
                 (''repeated_words'',
                    MCounts (take 10 (rep_repeated_words (repetition analysis))))]\<rparr>"

definition poor_transitions_issue :: "quality_analysis \<Rightarrow> Issue" where
  "poor_transitions_issue analysis =
     \<lparr>type = ''poor_transitions'', severity = 6,
      location = ''Between paragraphs'',
      issue_context = str_nat (tr_count (transitions analysis)) @ '' transitions in ''
                      @ str_nat (paragraph_count analysis) @ '' paragraphs'',
      description = ''Few transition words between ideas'',
      why = ''Transition words help readers follow your logic and connect ideas smoothly.'',
      suggested_approach =
        [''Add transitions like 'however', 'therefore', 'moreover'' @ [CHR 0x27],
         ''Connect paragraphs with transitional sentences'',
         ''Show relationships between ideas explicitly''],
      metrics = [(''transition_count'', MInt (int (tr_count (transitions analysis)))),
                 (''paragraph_count'', MInt (int (paragraph_count analysis)))]\<rparr>"

definition detect_quality_issues :: "WritingQualityAnalyzer \<Rightarrow> string \<Rightarrow> Issue list" where
  "detect_quality_issues a text =
     (let analysis = WritingQualityAnalyzer_analyze a text
      in (if pv_is_excessive (passive_voice analysis) then [passive_voice_issue analysis]
          else [])
         @ (if adv_is_excessive (adverbs analysis) then [adverbs_issue analysis] else [])
         @ (if wv_is_excessive (weak_verbs analysis) then [weak_verbs_issue analysis] else [])
         @ (if rep_is_excessive (repetition analysis) then [word_repetition_issue analysis]
            else [])
         @ (if tr_count (transitions analysis) < paragraph_count analysis
            then [poor_transitions_issue analysis] else []))"

text \<open>
  \<open>_detect_structure_issues\<close>: the numbered paragraphs of more than 150 words, and the one
  issue that lists them.  \<open>max\<close> is taken of a non-empty list of word counts.
\<close>

definition long_paragraphs_of :: "string list \<Rightarrow> (nat \<times> nat) list" where
  "long_paragraphs_of paragraphs =
     map (\<lambda>(i, para). (i + 1, length (split_ws para)))
         (filter (\<lambda>(i, para). length (split_ws para) > 150) (enumerate 0 paragraphs))"

definition paragraph_too_long_issue :: "(nat \<times> nat) list \<Rightarrow> nat \<Rightarrow> Issue" where
  "paragraph_too_long_issue long_paragraphs total_paragraphs =
     \<lparr>type = ''paragraph_too_long'', severity = 6,
      location = ''Paragraph(s) ''
                 @ join '', '' (map (\<lambda>p. str_nat (fst p)) (take 3 long_paragraphs)),
      issue_context = str_nat (length long_paragraphs) @ '' paragraphs over 150 words'',
      description = ''Some paragraphs are too long'',
      why = ''Long paragraphs are intimidating and hard to follow. ''
            @ ''Readers may skip them.'',
      suggested_approach =
        [''Break long paragraphs into smaller chunks'',
         ''Each paragraph should focus on one main idea'',
         ''Target: <150 words per paragraph'',
         ''Longest: '' @ str_nat (foldr max (map snd long_paragraphs) 0) @ '' words''],
      metrics = [(''long_paragraphs'', MPairs long_paragraphs),
                 (''total_paragraphs'', MInt (int total_paragraphs))]\<rparr>"

definition detect_structure_issues :: "string \<Rightarrow> Issue list" where
  "detect_structure_issues text =
     (let paragraphs = paragraphs_of text;
          long_paragraphs = long_paragraphs_of paragraphs
      in if long_paragraphs \<noteq> []
         then [paragraph_too_long_issue long_paragraphs (length paragraphs)]
         else [])"

text \<open>
  \<open>find_all_issues\<close>: the categories in the source's order, an absent analyzer
  contributing nothing (\<open>collect_issues\<close>); then the loop that overwrites every issue's
  severity with its score (\<open>add_severity_scores\<close>).
\<close>

definition collect_issues :: "ProblemDetector \<Rightarrow> string \<Rightarrow> Issue list" where
  "collect_issues d text =
     (case grammar_analyzer d of None \<Rightarrow> [] | Some a \<Rightarrow> detect_grammar_issues a text)
     @ (case readability_analyzer d of None \<Rightarrow> []
        | Some a \<Rightarrow> detect_readability_issues a text)
     @ (case quality_analyzer d of None \<Rightarrow> [] | Some a \<Rightarrow> detect_quality_issues a text)
     @ detect_structure_issues text"

definition add_severity_scores :: "Issue list \<Rightarrow> Issue list" where
  "add_severity_scores issues = map (\<lambda>issue. issue\<lparr>severity := score_issue issue\<rparr>) issues"

definition find_all_issues :: "ProblemDetector \<Rightarrow> string \<Rightarrow> Issue list" where
  "find_all_issues d text = add_severity_scores (collect_issues d text)"

section \<open>Fix validation (coaching/fix_validator.py)\<close>

text \<open>
  The message of a verdict is kept as its template and the values the f-string
  interpolates, one constructor per message of \<open>_check_improvement\<close>, in the source's
  order: for spelling and grammar "Fixed! Reduced ... issues from ... to ...", "Perfect!
  No ... issues remaining" and "Still ... issue(s) remaining"; for passive voice
  "Excellent! ... (target met)", "Good improvement! ...", "Small improvement. ..." and
  "No improvement. ..."; and so on down to the default "Text edited".
\<close>

datatype message =
    Fixed_Reduced string mval nat
  | Perfect_None_Remaining string
  | Still_Remaining nat string
  | Passive_Excellent real
  | Passive_Good_Improvement real real
  | Passive_Small_Improvement real real
  | Passive_No_Improvement real
  | Adverbs_Excellent real
  | Adverbs_Good real real
  | Adverbs_Still real
  | Weak_Verbs_Great real
  | Weak_Verbs_Improved real real
  | Weak_Verbs_Still real
  | Readability_Excellent real
  | Readability_Better real real
  | Readability_Slight real real
  | Readability_Unchanged real
  | Sentence_Perfect real
  | Sentence_Better real real
  | Sentence_Still real
  | Paragraphs_Excellent
  | Paragraphs_Improved nat nat
  | Paragraphs_Still nat
  | Repetition_Better mval nat
  | Repetition_Still nat
  | Transitions_Great nat
  | Transitions_Improved mval nat
  | Transitions_Still nat nat
  | Text_Edited

type_synonym verdict = "bool \<times> message \<times> metrics_dict"

text \<open>
  A baseline read from \<open>issue.metrics\<close> is compared or subtracted as a number, or its
  \<open>len\<close> is taken; Python raises \<open>TypeError\<close> where the stored value does not allow it.
\<close>

fun num_of :: "mval \<Rightarrow> real option" where
  "num_of (MInt i) = Some (real_of_int i)"
| "num_of (MFloat r) = Some r"
| "num_of (MStrs xs) = None"
| "num_of (MCounts xs) = None"
| "num_of (MPairs xs) = None"

fun len_of :: "mval \<Rightarrow> nat option" where
  "len_of (MInt i) = None"
| "len_of (MFloat r) = None"
| "len_of (MStrs xs) = Some (length xs)"
| "len_of (MCounts xs) = Some (length xs)"
| "len_of (MPairs xs) = Some (length xs)"

definition before_after :: "mval \<Rightarrow> mval \<Rightarrow> metrics_dict" where
  "before_after old new = [(''before'', old), (''after'', new)]"

definition check_spelling_grammar :: "Issue \<Rightarrow> Issue list \<Rightarrow> py_error + verdict" where
  "check_spelling_grammar issue new_issues =
     (let issue_type = type issue;
          new_count = length (filter (\<lambda>i. type i = issue_type) new_issues);
          old_count = dict_get (metrics issue) ''issue_count'' (MInt 0)
      in case num_of old_count of
           None \<Rightarrow> Inl TypeError
         | Some old \<Rightarrow>
             if real new_count < old
             then Inr (True, Fixed_Reduced issue_type old_count new_count,
                       before_after old_count (MInt (int new_count)))
             else if new_count = 0
             then Inr (True, Perfect_None_Remaining issue_type,
                       before_after old_count (MInt 0))
             else Inr (False, Still_Remaining new_count issue_type,
                       before_after old_count (MInt (int new_count))))"

definition check_passive_voice ::
  "WritingQualityAnalyzer \<Rightarrow> string \<Rightarrow> Issue \<Rightarrow> py_error + verdict" where
  "check_passive_voice qa edited issue =
     (let new_analysis = WritingQualityAnalyzer_analyze qa edited;
          new_pct = pv_percentage (passive_voice new_analysis);
          old_pct = dict_get (metrics issue) ''percentage'' (MInt 0)
      in case num_of old_pct of
           None \<Rightarrow> Inl TypeError
         | Some old \<Rightarrow>
             (let improvement = old - new_pct
              in if new_pct < 10
                 then Inr (True, Passive_Excellent new_pct,
                           before_after old_pct (MFloat new_pct))
                 else if improvement > 3
                 then Inr (True, Passive_Good_Improvement old new_pct,
                           before_after old_pct (MFloat new_pct))
                 else if improvement > 0
                 then Inr (True, Passive_Small_Improvement old new_pct,
                           before_after old_pct (MFloat new_pct))
                 else Inr (False, Passive_No_Improvement new_pct,
                           before_after old_pct (MFloat new_pct))))"

definition check_adverbs ::
  "WritingQualityAnalyzer \<Rightarrow> string \<Rightarrow> Issue \<Rightarrow> py_error + verdict" where
  "check_adverbs qa edited issue =
     (let new_analysis = WritingQualityAnalyzer_analyze qa edited;
          new_rate = adv_per_100_words (adverbs new_analysis);
          old_rate = dict_get (metrics issue) ''rate'' (MInt 0)
      in case num_of old_rate of
           None \<Rightarrow> Inl TypeError
         | Some old \<Rightarrow>
             (let improvement = old - new_rate
              in if new_rate < 3
                 then Inr (True, Adverbs_Excellent new_rate,
                           before_after old_rate (MFloat new_rate))
                 else if improvement > 1 / 2
                 then Inr (True, Adverbs_Good old new_rate,
                           before_after old_rate (MFloat new_rate))
                 else Inr (False, Adverbs_Still new_rate,
                           before_after old_rate (MFloat new_rate))))"

definition check_weak_verbs ::
  "WritingQualityAnalyzer \<Rightarrow> string \<Rightarrow> Issue \<Rightarrow> py_error + verdict" where
  "check_weak_verbs qa edited issue =
     (let new_analysis = WritingQualityAnalyzer_analyze qa edited;
          new_pct = wv_percentage (weak_verbs new_analysis);
          old_pct = dict_get (metrics issue) ''percentage'' (MInt 0)
      in case num_of old_pct of
           None \<Rightarrow> Inl TypeError
         | Some old \<Rightarrow>
             (let improvement = old - new_pct
              in if new_pct < 30
                 then Inr (True, Weak_Verbs_Great new_pct,
                           before_after old_pct (MFloat new_pct))
                 else if improvement > 3
                 then Inr (True, Weak_Verbs_Improved old new_pct,
                           before_after old_pct (MFloat new_pct))
                 else Inr (False, Weak_Verbs_Still new_pct,
                           before_after old_pct (MFloat new_pct))))"

definition check_difficult_words ::
  "ReadabilityAnalyzer \<Rightarrow> string \<Rightarrow> Issue \<Rightarrow> py_error + verdict" where
  "check_difficult_words ra edited issue =
     (let new_analysis = ReadabilityAnalyzer_analyze ra edited;
          new_score = flesch_reading_ease new_analysis;
          old_score = dict_get (metrics issue) ''flesch_score'' (MInt 0)
      in case num_of old_score of
           None \<Rightarrow> Inl TypeError
         | Some old \<Rightarrow>
             (let improvement = new_score - old
              in if new_score \<ge> 60
                 then Inr (True, Readability_Excellent new_score,
                           before_after old_score (MFloat new_score))
                 else if improvement > 5
                 then Inr (True, Readability_Better old new_score,
                           before_after old_score (MFloat new_score))
                 else if improvement > 0
                 then Inr (True, Readability_Slight old new_score,
                           before_after old_score (MFloat new_score))
                 else Inr (False, Readability_Unchanged new_score,
                           before_after old_score (MFloat new_score))))"

definition check_sentence_too_long ::
  "ReadabilityAnalyzer \<Rightarrow> string \<Rightarrow> Issue \<Rightarrow> py_error + verdict" where
  "check_sentence_too_long ra edited issue =
     (let new_analysis = ReadabilityAnalyzer_analyze ra edited;
          new_avg = avg_sentence_length new_analysis;
          old_avg = dict_get (metrics issue) ''avg_sentence_length'' (MInt 0)
      in case num_of old_avg of
           None \<Rightarrow> Inl TypeError
         | Some old \<Rightarrow>
             (let improvement = old - new_avg
              in if new_avg < 20
                 then Inr (True, Sentence_Perfect new_avg,
                           before_after old_avg (MFloat new_avg))
                 else if improvement > 2
                 then Inr (True, Sentence_Better old new_avg,
                           before_after old_avg (MFloat new_avg))
                 else Inr (False, Sentence_Still new_avg,
                           before_after old_avg (MFloat new_avg))))"

definition check_paragraph_too_long :: "string \<Rightarrow> Issue \<Rightarrow> py_error + verdict" where
  "check_paragraph_too_long edited issue =
     (let paragraphs = paragraphs_of edited;
          long_paras = filter (\<lambda>n. n > 150) (map (\<lambda>p. length (split_ws p)) paragraphs)
      in case len_of (dict_get (metrics issue) ''long_paragraphs'' (MPairs [])) of
           None \<Rightarrow> Inl TypeError
         | Some old_count \<Rightarrow>
             if length long_paras = 0
             then Inr (True, Paragraphs_Excellent,
                       before_after (MInt (int old_count)) (MInt 0))
             else if length long_paras < old_count
             then Inr (True, Paragraphs_Improved old_count (length long_paras),
                       before_after (MInt (int old_count)) (MInt (int (length long_paras))))
             else Inr (False, Paragraphs_Still (length long_paras),
                       before_after (MInt (int old_count)) (MInt (int (length long_paras)))))"

definition check_word_repetition ::
  "WritingQualityAnalyzer \<Rightarrow> string \<Rightarrow> Issue \<Rightarrow> py_error + verdict" where
  "check_word_repetition qa edited issue =
     (let new_analysis = WritingQualityAnalyzer_analyze qa edited;
          new_count = rep_total_repetitions (repetition new_analysis);
          old_count = dict_get (metrics issue) ''total_repetitions'' (MInt 0)
      in case num_of old_count of
           None \<Rightarrow> Inl TypeError
         | Some old \<Rightarrow>
             if real new_count < old
             then Inr (True, Repetition_Better old_count new_count,
                       before_after old_count (MInt (int new_count)))
             else Inr (False, Repetition_Still new_count,
                       before_after old_count (MInt (int new_count))))"

text \<open>
  Poor transitions: the paragraphs counted are those of \<open>edited\<close>, the text the validator
  was handed.  The baseline is compared only when the first test fails.
\<close>

definition check_poor_transitions ::
  "WritingQualityAnalyzer \<Rightarrow> string \<Rightarrow> Issue \<Rightarrow> py_error + verdict" where
  "check_poor_transitions qa edited issue =
     (let new_analysis = WritingQualityAnalyzer_analyze qa edited;
          new_count = tr_count (transitions new_analysis);
          old_count = dict_get (metrics issue) ''transition_count'' (MInt 0);
          para_count = length (paragraphs_of edited)
      in if new_count \<ge> para_count
         then Inr (True, Transitions_Great new_count,
                   before_after old_count (MInt (int new_count)))
         else case num_of old_count of
                None \<Rightarrow> Inl TypeError
              | Some old \<Rightarrow>
                  if real new_count > old
                  then Inr (True, Transitions_Improved old_count new_count,
                            before_after old_count (MInt (int new_count)))
                  else Inr (False, Transitions_Still new_count para_count,
                            before_after old_count (MInt (int new_count))))"

text \<open>
  \<open>_check_improvement\<close>: the chain of tests on \<open>issue.type\<close>.  A branch whose analyzer
  is absent falls through to the default verdict.
\<close>

definition default_verdict :: "py_error + verdict" where
  "default_verdict = Inr (True, Text_Edited, [])"

definition check_improvement ::
  "ProblemDetector \<Rightarrow> string \<Rightarrow> string \<Rightarrow> Issue \<Rightarrow> Issue list \<Rightarrow> py_error + verdict" where
  "check_improvement d original edited issue new_issues =
     (let issue_type = type issue
      in if issue_type \<in> set [''spelling'', ''grammar'']
         then check_spelling_grammar issue new_issues
         else if issue_type = ''passive_voice''
         then (case quality_analyzer d of None \<Rightarrow> default_verdict
               | Some qa \<Rightarrow> check_passive_voice qa edited issue)
         else if issue_type = ''adverbs''
         then (case quality_analyzer d of None \<Rightarrow> default_verdict
               | Some qa \<Rightarrow> check_adverbs qa edited issue)
         else if issue_type = ''weak_verbs''
         then (case quality_analyzer d of None \<Rightarrow> default_verdict
               | Some qa \<Rightarrow> check_weak_verbs qa edited issue)
         else if issue_type = ''difficult_words''
         then (case readability_analyzer d of None \<Rightarrow> default_verdict
               | Some ra \<Rightarrow> check_difficult_words ra edited issue)
         else if issue_type = ''sentence_too_long''
         then (case readability_analyzer d of None \<Rightarrow> default_verdict
               | Some ra \<Rightarrow> check_sentence_too_long ra edited issue)
         else if issue_type = ''paragraph_too_long''
         then check_paragraph_too_long edited issue
         else if issue_type = ''word_repetition''
         then (case quality_analyzer d of None \<Rightarrow> default_verdict
               | Some qa \<Rightarrow> check_word_repetition qa edited issue)
         else if issue_type = ''poor_transitions''
         then (case quality_analyzer d of None \<Rightarrow> default_verdict
               | Some qa \<Rightarrow> check_poor_transitions qa edited issue)
         else default_verdict)"

definition validate_fix ::
  "ProblemDetector \<Rightarrow> string \<Rightarrow> string \<Rightarrow> Issue \<Rightarrow> py_error + verdict" where
  "validate_fix d original_text edited_text issue =
     (let new_issues = find_all_issues d edited_text
      in check_improvement d original_text edited_text issue new_issues)"

section \<open>Inline editing (coaching/issue_presenter.py)\<close>

text \<open>
  \<open>edit_text_inline\<close> writes three instruction lines, an empty line and the text to a
  temporary file and runs the editor on it.  The editor session is the user's doing: a
  function from the file's first content to what is read back when the editor exits,
  or a failure (the subprocess error and any other exception both return \<open>None\<close>).
\<close>

datatype editor_outcome = Editor_Failed | Saved string

definition instruction_header :: "string \<Rightarrow> string" where
  "instruction_header issue_description =
     ''# Fix: '' @ issue_description @ [CHR 0x0A]
     @ ''# Delete this line and edit the text below.'' @ [CHR 0x0A]
     @ ''# Save and exit (Ctrl+X, then Y, then Enter)'' @ [CHR 0x0A, CHR 0x0A]"

text \<open>The lines of the saved text that do not start with \<open>#\<close>, joined again and stripped.\<close>

definition remove_instruction_lines :: "string \<Rightarrow> string" where
  "remove_instruction_lines edited =
     (let lines = split_lines edited;
          lines = filter (\<lambda>line. \<not> prefix ''#'' line) lines
      in strip (join [CHR 0x0A] lines))"

definition edit_text_inline ::
  "(string \<Rightarrow> editor_outcome) \<Rightarrow> string \<Rightarrow> string \<Rightarrow> string option" where
  "edit_text_inline editor text issue_description =
     (case editor (instruction_header issue_description @ text) of
        Editor_Failed \<Rightarrow> None
      | Saved saved \<Rightarrow>
          (let edited = remove_instruction_lines saved
           in if edited \<noteq> [] then Some edited else None))"

section \<open>The resolution loop (article_coach.py)\<close>

text \<open>
  The coach with its mutable fields.  \<open>validator\<close> is the detector the coach's
  \<open>FixValidator\<close> owns.  \<open>validate_calls\<close> is not a field of the source: it logs the
  arguments and the verdict of every call of \<open>validate_fix\<close> whose verdict was shown.
\<close>

record ArticleCoach =
  detector :: ProblemDetector
  validator :: ProblemDetector
  skip_types :: "string list"
  quick_mode :: bool
  original_text :: string
  coached_text :: string
  fixed_count :: int
  skipped_count :: int
  validate_calls :: "((string \<times> string \<times> Issue) \<times> verdict) list"

definition filter_issues :: "ArticleCoach \<Rightarrow> Issue list \<Rightarrow> Issue list" where
  "filter_issues c issues =
     (let issues = (if skip_types c \<noteq> []
                    then filter (\<lambda>i. type i \<notin> set (skip_types c)) issues else issues)
      in top_issues issues (if quick_mode c then 3 else 10))"

text \<open>
  What the user does when an issue is presented: quit (with the answer to the
  confirmation), skip, edit inline (with the editor session), or edit the whole text in
  the external editor (\<open>None\<close> when it could not be opened, else the text loaded back).
\<close>

datatype user_action =
    Quit bool
  | Skip
  | Edit_inline "string \<Rightarrow> editor_outcome"
  | Edit_external "string option"

text \<open>The \<open>edit_inline\<close> branch of \<open>_present_issues\<close> for one issue.\<close>

definition edit_inline_branch ::
  "(string \<Rightarrow> editor_outcome) \<Rightarrow> Issue \<Rightarrow> ArticleCoach \<Rightarrow> py_error + ArticleCoach" where
  "edit_inline_branch editor issue c =
     (case edit_text_inline editor (issue_context issue) (description issue) of
        None \<Rightarrow> Inr c
      | Some edited \<Rightarrow>
          if edited \<noteq> [] \<and> edited \<noteq> issue_context issue
          then (let c1 = c\<lparr>coached_text :=
                            replace_first (issue_context issue) edited (coached_text c)\<rparr>
                in case validate_fix (validator c1) (issue_context issue) edited issue of
                     Inl e \<Rightarrow> Inl e
                   | Inr (improved, message, m) \<Rightarrow>
                       Inr (c1\<lparr>validate_calls := validate_calls c1
                                   @ [((issue_context issue, edited, issue),
                                       (improved, message, m))],
                               fixed_count := (if improved then fixed_count c1 + 1
                                               else fixed_count c1)\<rparr>))
          else Inr c)"

definition edit_external_branch :: "string option \<Rightarrow> ArticleCoach \<Rightarrow> ArticleCoach" where
  "edit_external_branch result c =
     (case result of
        None \<Rightarrow> c
      | Some loaded \<Rightarrow> c\<lparr>coached_text := loaded, fixed_count := fixed_count c + 1\<rparr>)"

text \<open>
  \<open>_present_issues\<close>: the loop over \<open>enumerate(issues, 1)\<close>; \<open>user i issue\<close> is the user's
  reaction to the \<open>i\<close>-th issue.  The result is \<open>False\<close> when the user quit.  A declined
  quit goes on with the next issue, as \<open>continue\<close> does in a \<open>for\<close> loop.
\<close>

fun present_issues ::
  "(nat \<Rightarrow> Issue \<Rightarrow> user_action) \<Rightarrow> nat \<Rightarrow> Issue list \<Rightarrow> ArticleCoach \<Rightarrow>
   py_error + (bool \<times> ArticleCoach)" where
  "present_issues user i [] c = Inr (True, c)"
| "present_issues user i (issue # rest) c =
     (case user i issue of
        Quit confirmed \<Rightarrow>
          if confirmed then Inr (False, c) else present_issues user (i + 1) rest c
      | Skip \<Rightarrow> present_issues user (i + 1) rest (c\<lparr>skipped_count := skipped_count c + 1\<rparr>)
      | Edit_inline editor \<Rightarrow>
          (case edit_inline_branch editor issue c of
             Inl e \<Rightarrow> Inl e
           | Inr c' \<Rightarrow> present_issues user (i + 1) rest c')
      | Edit_external result \<Rightarrow>
          present_issues user (i + 1) rest (edit_external_branch result c))"

section \<open>Notions used to state the properties\<close>

text \<open>The issues of one type in a list, in order.\<close>

definition issues_of_type :: "string \<Rightarrow> Issue list \<Rightarrow> Issue list" where
  "issues_of_type ty issues = filter (\<lambda>i. type i = ty) issues"

text \<open>
  The severity table as the specification gives it: ten listed types, and 3 for any
  type that is not listed.
\<close>

definition spec_severity_table :: "string \<Rightarrow> int" where
  "spec_severity_table ty =
     (if ty = ''spelling'' then 10
      else if ty = ''grammar'' then 9
      else if ty = ''sentence_too_long'' then 7
      else if ty = ''difficult_words'' then 6
      else if ty = ''poor_transitions'' then 6
      else if ty = ''paragraph_too_long'' then 6
      else if ty = ''passive_voice'' then 5
      else if ty = ''weak_verbs'' then 4
      else if ty = ''word_repetition'' then 4
      else if ty = ''adverbs'' then 3
      else 3)"

text \<open>The types the detector's four categories construct.\<close>

definition emitted_types :: "string list" where
  "emitted_types = [''spelling'', ''grammar'', ''difficult_words'', ''sentence_too_long'',
     ''passive_voice'', ''adverbs'', ''weak_verbs'', ''word_repetition'',
     ''poor_transitions'', ''paragraph_too_long'']"


text \<open>
  The three categories of a LanguageTool rule id, as the specification words them:
  spelling when the id contains \<open>SPELL\<close> or \<open>MORFOLOGIK\<close>; otherwise punctuation when
  it contains \<open>PUNCT\<close> or \<open>COMMA\<close>; otherwise grammar.
\<close>

definition is_spelling_rule :: "string \<Rightarrow> bool" where
  "is_spelling_rule r = (str_contains ''SPELL'' r \<or> str_contains ''MORFOLOGIK'' r)"

definition is_punctuation_rule :: "string \<Rightarrow> bool" where
  "is_punctuation_rule r =
     (\<not> is_spelling_rule r \<and> (str_contains ''PUNCT'' r \<or> str_contains ''COMMA'' r))"

definition is_grammar_rule :: "string \<Rightarrow> bool" where
  "is_grammar_rule r = (\<not> is_spelling_rule r \<and> \<not> is_punctuation_rule r)"

text \<open>
  The fresh values the validator compares with a baseline: the number of issues of a
  type in a new run of \<open>find_all_issues\<close> on the edited text, and the passive percentage
  and the transition count of a new quality analysis of the edited text.
\<close>

definition fresh_count :: "ProblemDetector \<Rightarrow> string \<Rightarrow> string \<Rightarrow> nat" where
  "fresh_count d ty edited = length (issues_of_type ty (find_all_issues d edited))"

definition fresh_passive_percentage :: "WritingQualityAnalyzer \<Rightarrow> string \<Rightarrow> real" where
  "fresh_passive_percentage qa edited =
     pv_percentage (passive_voice (WritingQualityAnalyzer_analyze qa edited))"

definition fresh_transition_count :: "WritingQualityAnalyzer \<Rightarrow> string \<Rightarrow> nat" where
  "fresh_transition_count qa edited =
     tr_count (transitions (WritingQualityAnalyzer_analyze qa edited))"

text \<open>
  Claim C6 as it is stated: improved when the fresh transition count reaches the
  number of paragraphs of the working text after the edit, or exceeds the baseline.
\<close>

definition claimed_transitions_improved :: "nat \<Rightarrow> string \<Rightarrow> real \<Rightarrow> bool" where
  "claimed_transitions_improved new working_text old =
     (new \<ge> length (paragraphs_of working_text) \<or> real new > old)"

section \<open>Concrete inputs\<close>

text \<open>An issue with a given type, severity and context and nothing else filled in.\<close>

definition bare_issue :: "string \<Rightarrow> int \<Rightarrow> string \<Rightarrow> Issue" where
  "bare_issue ty sev ctx =
     \<lparr>type = ty, severity = sev, location = [], issue_context = ctx, description = [],
      why = [], suggested_approach = [], metrics = []\<rparr>"

definition four_issues :: "Issue list" where
  "four_issues = [bare_issue ''weak_verbs'' 4 ''a'', bare_issue ''difficult_words'' 6 ''b'',
                  bare_issue ''spelling'' 10 ''c'', bare_issue ''poor_transitions'' 6 ''d'']"

text \<open>
  A readability analyzer whose textstat figures are the same for every text, and a
  detector that has only a readability analyzer.
\<close>

definition constant_readability :: "real \<Rightarrow> real \<Rightarrow> ReadabilityAnalyzer" where
  "constant_readability f a =
     \<lparr>textstat_flesch_reading_ease = (\<lambda>text. f), textstat_avg_sentence_length = (\<lambda>text. a),
      textstat_difficult_words = (\<lambda>text. 0)\<rparr>"

definition readability_only :: "ReadabilityAnalyzer \<Rightarrow> ProblemDetector" where
  "readability_only ra =
     \<lparr>grammar_analyzer = None, readability_analyzer = Some ra, quality_analyzer = None\<rparr>"

text \<open>
  Two texts of two paragraphs: 200 letters \<open>A\<close>, a blank line, 10 letters \<open>B\<close>; and 200
  words \<open>A\<close> separated by single spaces, a blank line, 10 words \<open>B\<close>.  And a detector all
  of whose analyzers are absent.
\<close>

definition text_letters :: string where
  "text_letters = replicate 200 (CHR ''A'') @ [CHR 0x0A, CHR 0x0A] @ replicate 10 (CHR ''B'')"

definition text_words :: string where
  "text_words = join '' '' (replicate 200 ''A'') @ [CHR 0x0A, CHR 0x0A]
                @ join '' '' (replicate 10 ''B'')"

definition no_analyzers :: ProblemDetector where
  "no_analyzers = \<lparr>grammar_analyzer = None, readability_analyzer = None, quality_analyzer = None\<rparr>"

text \<open>A grammar engine that reports the same four matches for every text.\<close>

definition match_of_rule :: "string \<Rightarrow> int \<Rightarrow> lt_match" where
  "match_of_rule r off =
     \<lparr>m_message = ''Possible mistake found.'', m_context = ''I saw teh cat, and left'',
      m_offset = off, m_errorLength = 3, m_replacements = [''the'', ''tea'', ''ten'', ''the''],
      m_ruleId = r\<rparr>"

definition four_matches :: "string \<Rightarrow> lt_match list" where
  "four_matches text =
     [match_of_rule ''UPPERCASE_SENTENCE_START'' 0, match_of_rule ''MORFOLOGIK_RULE_EN_US'' 6,
      match_of_rule ''COMMA_PARENTHESIS_WHITESPACE'' 13, match_of_rule ''EN_MISSPELLED_PUNCT'' 20]"

text \<open>
  A grammar engine that knows one misspelling, \<open>teh\<close>, and reports it once when the text
  contains it; the detector that has only this grammar analyzer; and the issue it finds
  in \<open>I saw teh cat.\<close>
\<close>

definition teh_check :: "string \<Rightarrow> lt_match list" where
  "teh_check text =
     (if str_contains ''teh'' text
      then [\<lparr>m_message = ''Possible spelling mistake found.'', m_context = text,
             m_offset = 6, m_errorLength = 3, m_replacements = [''the'', ''tea'', ''ten''],
             m_ruleId = ''MORFOLOGIK_RULE_EN_US''\<rparr>]
      else [])"

definition teh_detector :: ProblemDetector where
  "teh_detector = \<lparr>grammar_analyzer = Some \<lparr>tool_check = teh_check\<rparr>,
                    readability_analyzer = None, quality_analyzer = None\<rparr>"

definition teh_issue :: Issue where
  "teh_issue =
     \<lparr>type = ''spelling'', severity = 10, location = ''Character 6'',
      issue_context = ''I saw teh cat.'',
      description = ''Possible spelling mistake found.'',
      why = ''Spelling errors hurt credibility and distract readers'',
      suggested_approach = [''Replace with: the, tea, ten''],
      metrics = [(''issue_count'', MInt 1)]\<rparr>"

text \<open>
  A grammar engine that reports every word \<open>teh\<close> of the text; its detector; a text with
  the misspelling six times, the issue the detector builds from each of the first five
  matches, and the same text with a second space after the first word.
\<close>

definition every_teh_check :: "string \<Rightarrow> lt_match list" where
  "every_teh_check text =
     map (\<lambda>w. \<lparr>m_message = ''Possible spelling mistake found.'', m_context = text,
               m_offset = 0, m_errorLength = 3, m_replacements = [''the''],
               m_ruleId = ''MORFOLOGIK_RULE_EN_US''\<rparr>)
         (filter (\<lambda>w. w = ''teh'') (split_ws text))"

definition every_teh_detector :: ProblemDetector where
  "every_teh_detector = \<lparr>grammar_analyzer = Some \<lparr>tool_check = every_teh_check\<rparr>,
                          readability_analyzer = None, quality_analyzer = None\<rparr>"

definition six_teh :: string where
  "six_teh = ''teh teh teh teh teh teh''"

definition six_teh_issue :: Issue where
  "six_teh_issue =
     \<lparr>type = ''spelling'', severity = 10, location = ''Character 0'',
      issue_context = six_teh,
      description = ''Possible spelling mistake found.'',
      why = ''Spelling errors hurt credibility and distract readers'',
      suggested_approach = [''Replace with: the''],
      metrics = [(''issue_count'', MInt 6)]\<rparr>"

definition six_teh_respaced :: string where
  "six_teh_respaced = ''teh  teh teh teh teh teh''"

text \<open>
  A language pipeline for plain lower-case prose: every non-blank line is a sentence,
  its tokens are its words, and \<open>was\<close> is the one passive auxiliary.  A pipeline that
  returns the same parsed document for every text.  A detector with only a quality
  analyzer.
\<close>

definition plain_token :: "string \<Rightarrow> token" where
  "plain_token w =
     \<lparr>tok_text = w, tok_lemma = lower w, tok_pos = ''NOUN'',
      tok_dep = (if lower w = ''was'' then ''auxpass'' else ''dep''),
      is_stop = False, is_alpha = True\<rparr>"

definition line_nlp :: "string \<Rightarrow> doc" where
  "line_nlp text =
     (let sents = map (\<lambda>l. \<lparr>span_text = l, span_tokens = map plain_token (split_ws l)\<rparr>)
                      (filter (\<lambda>l. strip l \<noteq> []) (split_lines text))
      in \<lparr>doc_tokens = concat (map span_tokens sents), doc_sents = sents\<rparr>)"

definition quality_only :: "WritingQualityAnalyzer \<Rightarrow> ProblemDetector" where
  "quality_only qa =
     \<lparr>grammar_analyzer = None, readability_analyzer = None, quality_analyzer = Some qa\<rparr>"

text \<open>A parsed document of 100 one-word sentences, 11 of them passive.\<close>

definition one_word_sentence :: "string \<Rightarrow> span" where
  "one_word_sentence w = \<lparr>span_text = w, span_tokens = [plain_token w]\<rparr>"

definition eleven_of_hundred :: doc where
  "eleven_of_hundred =
     (let sents = replicate 11 (one_word_sentence ''was'')
                  @ replicate 89 (one_word_sentence ''did'')
      in \<lparr>doc_tokens = concat (map span_tokens sents), doc_sents = sents\<rparr>)"

definition passive_issue_15 :: Issue where
  "passive_issue_15 =
     (bare_issue ''passive_voice'' 5 ''15 passive constructions found'')
       \<lparr>metrics := [(''percentage'', MFloat 15), (''count'', MInt 15), (''examples'', MStrs [])]\<rparr>"

text \<open>
  A document of three paragraphs with one transition word; the issue the detector finds
  in it; a coach working on it; and an editor session in which the user replaces the
  whole file by the word \<open>however\<close>.
\<close>

definition three_paragraphs :: string where
  "three_paragraphs = ''however alpha'' @ [CHR 0x0A, CHR 0x0A] @ ''beta''
                      @ [CHR 0x0A, CHR 0x0A] @ ''gamma''"

definition transitions_issue :: Issue where
  "transitions_issue =
     (poor_transitions_issue (WritingQualityAnalyzer_analyze \<lparr>nlp = line_nlp\<rparr> three_paragraphs))
       \<lparr>severity := 6\<rparr>"

definition transitions_coach :: ArticleCoach where
  "transitions_coach =
     \<lparr>detector = quality_only \<lparr>nlp = line_nlp\<rparr>, validator = quality_only \<lparr>nlp = line_nlp\<rparr>,
      skip_types = [], quick_mode = False, original_text = three_paragraphs,
      coached_text = three_paragraphs, fixed_count = 0, skipped_count = 0,
      validate_calls = []\<rparr>"

definition however_editor :: "string \<Rightarrow> editor_outcome" where
  "however_editor initial = Saved ''however''"

definition fixed_nlp :: "doc \<Rightarrow> WritingQualityAnalyzer" where
  "fixed_nlp d = \<lparr>nlp = (\<lambda>text. d)\<rparr>"

definition transitions_coach_after :: ArticleCoach where
  "transitions_coach_after =
     transitions_coach
       \<lparr>validate_calls :=
          [((''1 transitions in 3 paragraphs'', ''however'', transitions_issue),
            (True, Transitions_Great 1, before_after (MInt 1) (MInt 1)))],
        fixed_count := 1\<rparr>"

text \<open>An editor session in which the user saves the file as it was opened.\<close>

definition unchanged_editor :: "string \<Rightarrow> editor_outcome" where
  "unchanged_editor initial = Saved initial"

text \<open>
  An editor session in which the user leaves the instruction lines, and writes a
  Markdown heading and a sentence; and one in which only instruction lines and blank
  space are left.
\<close>

definition heading_editor :: "string \<Rightarrow> editor_outcome" where
  "heading_editor initial =
     Saved (''# Fix: spelling'' @ [CHR 0x0A] @ ''# Results'' @ [CHR 0x0A]
            @ ''  The cat sat.  '' @ [CHR 0x0A])"

definition blank_editor :: "string \<Rightarrow> editor_outcome" where
  "blank_editor initial =
     Saved (''# Fix: spelling'' @ [CHR 0x0A] @ ''   '' @ [CHR 0x0A] @ ''#'' @ [CHR 0x0A])"

section \<open>The prioritizer\<close>













section \<open>The issue synthesizer\<close>

lemma type_of_issue [simp]:
  "type (spelling_issue n g) = ''spelling''"
  "type (grammar_issue_of n g) = ''grammar''"
  "type (difficult_words_issue ra) = ''difficult_words''"
  "type (sentence_too_long_issue ra) = ''sentence_too_long''"
  "type (passive_voice_issue qa) = ''passive_voice''"
  "type (adverbs_issue qa) = ''adverbs''"
  "type (weak_verbs_issue qa) = ''weak_verbs''"
  "type (word_repetition_issue qa) = ''word_repetition''"
  "type (poor_transitions_issue qa) = ''poor_transitions''"
  "type (paragraph_too_long_issue lp n) = ''paragraph_too_long''"
  by (simp_all add: spelling_issue_def grammar_issue_of_def difficult_words_issue_def
      sentence_too_long_issue_def passive_voice_issue_def adverbs_issue_def
      weak_verbs_issue_def word_repetition_issue_def poor_transitions_issue_def
      paragraph_too_long_issue_def Let_def)

lemma grammar_types:
  "i \<in> set (detect_grammar_issues a text) \<Longrightarrow> type i \<in> {''spelling'', ''grammar''}"
  by (auto simp: detect_grammar_issues_def Let_def)

lemma readability_types:
  "i \<in> set (detect_readability_issues a text) \<Longrightarrow>
   type i \<in> {''difficult_words'', ''sentence_too_long''}"
  by (auto simp: detect_readability_issues_def Let_def split: if_splits)

lemma quality_types:
  "i \<in> set (detect_quality_issues a text) \<Longrightarrow>
   type i \<in> {''passive_voice'', ''adverbs'', ''weak_verbs'', ''word_repetition'',
              ''poor_transitions''}"
  by (auto simp: detect_quality_issues_def Let_def split: if_splits)

lemma structure_types:
  "i \<in> set (detect_structure_issues text) \<Longrightarrow> type i = ''paragraph_too_long''"
  by (auto simp: detect_structure_issues_def Let_def split: if_splits)

lemma collect_types:
  assumes "i \<in> set (collect_issues d text)"
  shows "type i \<in> set emitted_types"
proof -
  from assms consider
      (g) a where "i \<in> set (detect_grammar_issues a text)"
    | (r) a where "i \<in> set (detect_readability_issues a text)"
    | (q) a where "i \<in> set (detect_quality_issues a text)"
    | (s) "i \<in> set (detect_structure_issues text)"
    by (auto simp: collect_issues_def split: option.splits)
  then show ?thesis
  proof cases
    case g
    from grammar_types [OF g] show ?thesis by (auto simp: emitted_types_def)
  next
    case r
    from readability_types [OF r] show ?thesis by (auto simp: emitted_types_def)
  next
    case q
    from quality_types [OF q] show ?thesis by (auto simp: emitted_types_def)
  next
    case s
    from structure_types [OF s] show ?thesis by (simp add: emitted_types_def)
  qed
qed

lemma score_on_emitted:
  "ty \<in> set emitted_types \<Longrightarrow> dict_get SEVERITY_SCORES ty 3 = spec_severity_table ty"
  by (auto simp: emitted_types_def dict_get_def SEVERITY_SCORES_def spec_severity_table_def)

lemma find_all_issues_mem:
  "i \<in> set (find_all_issues d text) \<longleftrightarrow>
   (\<exists>j \<in> set (collect_issues d text). i = j\<lparr>severity := score_issue j\<rparr>)"
  by (auto simp: find_all_issues_def add_severity_scores_def)

lemma issues_of_type_find_all:
  "issues_of_type ty (find_all_issues d text) =
   map (\<lambda>issue. issue\<lparr>severity := score_issue issue\<rparr>) (issues_of_type ty (collect_issues d text))"
  by (simp add: issues_of_type_def find_all_issues_def add_severity_scores_def filter_map
      comp_def)

lemma issues_of_type_append [simp]:
  "issues_of_type ty (xs @ ys) = issues_of_type ty xs @ issues_of_type ty ys"
  by (simp add: issues_of_type_def)

lemma issues_of_type_nil: "issues_of_type ty [] = []"
  by (simp add: issues_of_type_def)

lemma issues_of_type_none:
  "(\<And>i. i \<in> set xs \<Longrightarrow> type i \<noteq> ty) \<Longrightarrow> issues_of_type ty xs = []"
  by (auto simp: issues_of_type_def filter_empty_conv)

lemma grammar_no_readability:
  "ty \<in> {''difficult_words'', ''sentence_too_long'', ''paragraph_too_long''} \<Longrightarrow>
   issues_of_type ty (detect_grammar_issues a text) = []"
  by (rule issues_of_type_none) (auto dest: grammar_types)

lemma quality_no_readability:
  "ty \<in> {''difficult_words'', ''sentence_too_long'', ''paragraph_too_long''} \<Longrightarrow>
   issues_of_type ty (detect_quality_issues a text) = []"
  by (rule issues_of_type_none) (auto dest: quality_types)

lemma structure_no_readability:
  "ty \<in> {''difficult_words'', ''sentence_too_long''} \<Longrightarrow>
   issues_of_type ty (detect_structure_issues text) = []"
  by (rule issues_of_type_none) (auto dest: structure_types)

lemma readability_no_paragraph:
  "issues_of_type ''paragraph_too_long'' (detect_readability_issues a text) = []"
  by (rule issues_of_type_none) (auto dest: readability_types)

lemma collect_readability_types:
  assumes "ty \<in> {''difficult_words'', ''sentence_too_long''}"
  shows "issues_of_type ty (collect_issues d text) =
         (case readability_analyzer d of None \<Rightarrow> []
          | Some a \<Rightarrow> issues_of_type ty (detect_readability_issues a text))"
proof -
  have g: "issues_of_type ty (case grammar_analyzer d of None \<Rightarrow> []
             | Some a \<Rightarrow> detect_grammar_issues a text) = []"
    using assms grammar_no_readability [of ty]
    by (cases "grammar_analyzer d") (auto simp: issues_of_type_def)
  have q: "issues_of_type ty (case quality_analyzer d of None \<Rightarrow> []
             | Some a \<Rightarrow> detect_quality_issues a text) = []"
    using assms quality_no_readability [of ty]
    by (cases "quality_analyzer d") (auto simp: issues_of_type_def)
  have s: "issues_of_type ty (detect_structure_issues text) = []"
    using assms by (rule structure_no_readability)
  show ?thesis
    by (cases "readability_analyzer d")
       (simp_all add: collect_issues_def g q s issues_of_type_nil)
qed

lemma detect_readability_difficult:
  "issues_of_type ''difficult_words'' (detect_readability_issues a text) =
   (if flesch_reading_ease (ReadabilityAnalyzer_analyze a text) < 50
    then [difficult_words_issue (ReadabilityAnalyzer_analyze a text)] else [])"
  by (simp add: detect_readability_issues_def issues_of_type_def Let_def)

lemma detect_readability_sentence:
  "issues_of_type ''sentence_too_long'' (detect_readability_issues a text) =
   (if avg_sentence_length (ReadabilityAnalyzer_analyze a text) > 20
    then [sentence_too_long_issue (ReadabilityAnalyzer_analyze a text)] else [])"
  by (simp add: detect_readability_issues_def issues_of_type_def Let_def)

lemma score_off_factual_error:
  "ty \<noteq> ''factual_error'' \<Longrightarrow> dict_get SEVERITY_SCORES ty 3 = spec_severity_table ty"
  by (simp add: dict_get_def SEVERITY_SCORES_def spec_severity_table_def)

lemma add_severity_scores_table:
  assumes "\<forall>j \<in> set issues. type j \<noteq> ''factual_error''"
  shows "\<forall>i \<in> set (add_severity_scores issues). severity i = spec_severity_table (type i)"
  using assms by (auto simp: add_severity_scores_def score_issue_def score_off_factual_error)

lemma add_severity_scores_carried:
  "add_severity_scores (map (\<lambda>issue. issue\<lparr>severity := carried issue\<rparr>) issues)
   = add_severity_scores issues"
  by (simp add: add_severity_scores_def score_issue_def)

lemma collect_no_factual_error:
  "\<forall>j \<in> set (collect_issues d text). type j \<noteq> ''factual_error''"
proof
  fix j assume "j \<in> set (collect_issues d text)"
  from collect_types [OF this] show "type j \<noteq> ''factual_error''"
    by (auto simp: emitted_types_def)
qed

text \<open>
  Claim C3: every issue in the list returned by \<open>find_all_issues\<close> has the severity the
  specification's table gives for its type.  The severity an issue carried at
  construction plays no part: whatever severities the constructed issues carry, the
  overwriting loop returns the same list; and applied to any list of issues of types
  other than \<open>factual_error\<close>, with any severities, the loop leaves every issue with the
  table's severity for its type.
\<close>

theorem severity_from_table:
  "(\<forall>i \<in> set (find_all_issues d text). severity i = spec_severity_table (type i))
   \<and> (\<forall>carried.
        add_severity_scores
          (map (\<lambda>issue. issue\<lparr>severity := carried issue\<rparr>) (collect_issues d text))
        = find_all_issues d text)
   \<and> (\<forall>issues. (\<forall>j \<in> set issues. type j \<noteq> ''factual_error'') \<longrightarrow>
        (\<forall>i \<in> set (add_severity_scores issues).
           severity i = spec_severity_table (type i)))"
proof (intro conjI allI impI)
  show "\<forall>i \<in> set (find_all_issues d text). severity i = spec_severity_table (type i)"
    unfolding find_all_issues_def
    by (rule add_severity_scores_table) (rule collect_no_factual_error)
next
  fix carried
  show "add_severity_scores
          (map (\<lambda>issue. issue\<lparr>severity := carried issue\<rparr>) (collect_issues d text))
        = find_all_issues d text"
    by (simp add: add_severity_scores_carried find_all_issues_def)
next
  fix issues :: "Issue list"
  assume "\<forall>j \<in> set issues. type j \<noteq> ''factual_error''"
  then show "\<forall>i \<in> set (add_severity_scores issues).
               severity i = spec_severity_table (type i)"
    by (rule add_severity_scores_table)
qed

lemma collect_constant_40_25:
  "map type (collect_issues (readability_only (constant_readability 40 25)) ''Some text.'')
   = [''difficult_words'', ''sentence_too_long'']"
proof -
  have s: "detect_structure_issues ''Some text.'' = []" by code_simp
  show ?thesis
    by (simp add: collect_issues_def readability_only_def s detect_readability_issues_def
        constant_readability_def ReadabilityAnalyzer_analyze_def Let_def)
qed

lemma find_all_constant_40_25:
  "map (\<lambda>i. (type i, severity i))
       (find_all_issues (readability_only (constant_readability 40 25)) ''Some text.'')
   = [(''difficult_words'', 6), (''sentence_too_long'', 7)]"
proof -
  have s: "detect_structure_issues ''Some text.'' = []" by code_simp
  show ?thesis
    by (simp add: find_all_issues_def add_severity_scores_def collect_issues_def
        readability_only_def s detect_readability_issues_def constant_readability_def
        ReadabilityAnalyzer_analyze_def score_issue_def dict_get_def SEVERITY_SCORES_def
        Let_def)
qed

lemma four_issues_rescored:
  "list_all (\<lambda>j. type j \<noteq> ''factual_error'') four_issues
   \<and> map severity (map (\<lambda>issue. issue\<lparr>severity := 1\<rparr>) four_issues) = [1, 1, 1, 1]
   \<and> map type four_issues
     = [''weak_verbs'', ''difficult_words'', ''spelling'', ''poor_transitions'']"
  by (simp add: four_issues_def bare_issue_def)

theorem severity_from_table_witness:
  "map (\<lambda>i. (type i, severity i))
       (find_all_issues (readability_only (constant_readability 40 25)) ''Some text.'')
     = [(''difficult_words'', 6), (''sentence_too_long'', 7)]
   \<and> list_all (\<lambda>i. severity i = spec_severity_table (type i))
        (find_all_issues (readability_only (constant_readability 40 25)) ''Some text.'')
   \<and> map (\<lambda>i. (type i, severity i))
       (add_severity_scores
          (map (\<lambda>issue. issue\<lparr>severity := 1\<rparr>)
             (collect_issues (readability_only (constant_readability 40 25)) ''Some text.'')))
     = [(''difficult_words'', 6), (''sentence_too_long'', 7)]
   \<and> list_all (\<lambda>j. type j \<noteq> ''factual_error'') four_issues
   \<and> map severity (map (\<lambda>issue. issue\<lparr>severity := 1\<rparr>) four_issues) = [1, 1, 1, 1]
   \<and> list_all (\<lambda>i. severity i = spec_severity_table (type i))
        (add_severity_scores (map (\<lambda>issue. issue\<lparr>severity := 1\<rparr>) four_issues))"
proof -
  note t = severity_from_table
             [of "readability_only (constant_readability 40 25)" "''Some text.''"]
  from t have a: "list_all (\<lambda>i. severity i = spec_severity_table (type i))
        (find_all_issues (readability_only (constant_readability 40 25)) ''Some text.'')"
    by (simp add: list_all_iff)
  from t have "\<forall>carried. add_severity_scores
          (map (\<lambda>issue. issue\<lparr>severity := carried issue\<rparr>)
             (collect_issues (readability_only (constant_readability 40 25)) ''Some text.''))
        = find_all_issues (readability_only (constant_readability 40 25)) ''Some text.''"
    by blast
  from this [THEN spec, of "\<lambda>issue. 1"] have b: "map (\<lambda>i. (type i, severity i))
       (add_severity_scores
          (map (\<lambda>issue. issue\<lparr>severity := 1\<rparr>)
             (collect_issues (readability_only (constant_readability 40 25)) ''Some text.'')))
     = [(''difficult_words'', 6), (''sentence_too_long'', 7)]"
    by (simp add: find_all_constant_40_25)
  have f: "\<forall>j \<in> set (map (\<lambda>issue. issue\<lparr>severity := 1\<rparr>) four_issues).
             type j \<noteq> ''factual_error''"
    by (simp add: four_issues_def bare_issue_def)
  from t have "\<forall>issues. (\<forall>j \<in> set issues. type j \<noteq> ''factual_error'') \<longrightarrow>
        (\<forall>i \<in> set (add_severity_scores issues).
           severity i = spec_severity_table (type i))"
    by blast
  from this [THEN spec, of "map (\<lambda>issue. issue\<lparr>severity := 1\<rparr>) four_issues"] f
  have c: "list_all (\<lambda>i. severity i = spec_severity_table (type i))
        (add_severity_scores (map (\<lambda>issue. issue\<lparr>severity := 1\<rparr>) four_issues))"
    by (simp add: list_all_iff)
  from a b c find_all_constant_40_25 four_issues_rescored show ?thesis by simp
qed

text \<open>
  Claim C1: with a readability analyzer present, \<open>find_all_issues\<close> emits a
  \<open>difficult_words\<close> issue if and only if the analyzer's Flesch reading ease of the text
  is strictly below 50, and a \<open>sentence_too_long\<close> issue if and only if the analyzer's
  average sentence length is strictly above 20; each at most once.
\<close>

theorem readability_thresholds:
  assumes "readability_analyzer d = Some ra"
  shows "(issues_of_type ''difficult_words'' (find_all_issues d D) \<noteq> [])
           = (flesch_reading_ease (ReadabilityAnalyzer_analyze ra D) < 50)
       \<and> (issues_of_type ''sentence_too_long'' (find_all_issues d D) \<noteq> [])
           = (avg_sentence_length (ReadabilityAnalyzer_analyze ra D) > 20)
       \<and> length (issues_of_type ''difficult_words'' (find_all_issues d D)) \<le> 1
       \<and> length (issues_of_type ''sentence_too_long'' (find_all_issues d D)) \<le> 1"
  using assms
  by (simp add: issues_of_type_find_all collect_readability_types
      detect_readability_difficult detect_readability_sentence)

theorem readability_thresholds_witness:
  "readability_analyzer (readability_only (constant_readability 50 20))
     = Some (constant_readability 50 20)
   \<and> issues_of_type ''difficult_words''
        (find_all_issues (readability_only (constant_readability 50 20)) ''Some text.'') = []
   \<and> issues_of_type ''sentence_too_long''
        (find_all_issues (readability_only (constant_readability 50 20)) ''Some text.'') = []
   \<and> readability_analyzer (readability_only (constant_readability (499 / 10) (2001 / 100)))
     = Some (constant_readability (499 / 10) (2001 / 100))
   \<and> issues_of_type ''difficult_words''
        (find_all_issues (readability_only (constant_readability (499 / 10) (2001 / 100)))
           ''Some text.'') \<noteq> []
   \<and> issues_of_type ''sentence_too_long''
        (find_all_issues (readability_only (constant_readability (499 / 10) (2001 / 100)))
           ''Some text.'') \<noteq> []"
  using readability_thresholds [of "readability_only (constant_readability 50 20)"
          "constant_readability 50 20" "''Some text.''"]
        readability_thresholds [of "readability_only (constant_readability (499 / 10) (2001 / 100))"
          "constant_readability (499 / 10) (2001 / 100)" "''Some text.''"]
  by (simp add: readability_only_def constant_readability_def ReadabilityAnalyzer_analyze_def)


section \<open>Paragraph structure\<close>

lemma structure_all_paragraph:
  "issues_of_type ''paragraph_too_long'' (detect_structure_issues text) =
   detect_structure_issues text"
  by (simp add: issues_of_type_def detect_structure_issues_def Let_def)

lemma collect_paragraph_type:
  "issues_of_type ''paragraph_too_long'' (collect_issues d text) = detect_structure_issues text"
proof -
  have g: "issues_of_type ''paragraph_too_long'' (case grammar_analyzer d of None \<Rightarrow> []
             | Some a \<Rightarrow> detect_grammar_issues a text) = []"
    using grammar_no_readability [of "''paragraph_too_long''"]
    by (cases "grammar_analyzer d") (simp_all add: issues_of_type_nil)
  have r: "issues_of_type ''paragraph_too_long'' (case readability_analyzer d of None \<Rightarrow> []
             | Some a \<Rightarrow> detect_readability_issues a text) = []"
    using readability_no_paragraph
    by (cases "readability_analyzer d") (simp_all add: issues_of_type_nil)
  have q: "issues_of_type ''paragraph_too_long'' (case quality_analyzer d of None \<Rightarrow> []
             | Some a \<Rightarrow> detect_quality_issues a text) = []"
    using quality_no_readability [of "''paragraph_too_long''"]
    by (cases "quality_analyzer d") (simp_all add: issues_of_type_nil)
  show ?thesis
    by (simp add: collect_issues_def g r q structure_all_paragraph)
qed

lemma find_all_paragraph_type:
  "issues_of_type ''paragraph_too_long'' (find_all_issues d text) =
   map (\<lambda>issue. issue\<lparr>severity := score_issue issue\<rparr>) (detect_structure_issues text)"
  by (simp add: issues_of_type_find_all collect_paragraph_type)

lemma structure_text_words:
  "detect_structure_issues text_words = [paragraph_too_long_issue [(1, 200)] 2]"
  by code_simp

lemma structure_text_letters: "detect_structure_issues text_letters = []"
  by code_simp

lemma word_counts_text_letters:
  "map (\<lambda>p. length (split_ws p)) (paragraphs_of text_letters) = [1, 1]"
  by code_simp

text \<open>
  Claim C7, as the code has it: for the text of 200 words \<open>A\<close> separated by single
  spaces, a blank line and 10 words \<open>B\<close>, \<open>find_all_issues\<close> emits exactly one
  \<open>paragraph_too_long\<close> issue, and its \<open>metrics.long_paragraphs\<close> is \<open>[(1, 200)]\<close>,
  whichever analyzers are present.
\<close>

theorem long_paragraph_of_200_words:
  "map (\<lambda>issue. map_of (metrics issue) ''long_paragraphs'')
       (issues_of_type ''paragraph_too_long'' (find_all_issues d text_words))
   = [Some (MPairs [(1, 200)])]"
  by (simp add: find_all_paragraph_type structure_text_words paragraph_too_long_issue_def)

theorem long_paragraph_of_200_words_witness:
  "map (\<lambda>issue. map_of (metrics issue) ''long_paragraphs'')
       (issues_of_type ''paragraph_too_long'' (find_all_issues no_analyzers text_words))
   = [Some (MPairs [(1, 200)])]"
  using long_paragraph_of_200_words [of no_analyzers] .

text \<open>
  The text \<open>"A"*200 + "\n\n" + "B"*10\<close> itself has two paragraphs of one word each, and
  no \<open>paragraph_too_long\<close> issue is emitted for it.
\<close>

theorem no_long_paragraph_in_200_letters:
  "issues_of_type ''paragraph_too_long'' (find_all_issues no_analyzers text_letters) = []"
  by (simp add: find_all_paragraph_type structure_text_letters)

section \<open>The grammar analyzer\<close>

lemma str_contains_sublist: "str_contains sub s = sublist sub s"
  by (induction s) (auto simp: sublist_Cons_right)

lemma categorize_filters:
  "categorize ms (g, s, p) =
     (g @ map issue_of_match (filter (\<lambda>m. is_grammar_rule (m_ruleId m)) ms),
      s @ map issue_of_match (filter (\<lambda>m. is_spelling_rule (m_ruleId m)) ms),
      p @ map issue_of_match (filter (\<lambda>m. is_punctuation_rule (m_ruleId m)) ms))"
  by (induction ms arbitrary: g s p)
     (simp_all add: is_grammar_rule_def is_spelling_rule_def is_punctuation_rule_def)

lemma partition_lengths:
  "length (filter (\<lambda>m. is_grammar_rule (m_ruleId m)) ms)
   + length (filter (\<lambda>m. is_spelling_rule (m_ruleId m)) ms)
   + length (filter (\<lambda>m. is_punctuation_rule (m_ruleId m)) ms) = length ms"
  by (induction ms) (auto simp: is_grammar_rule_def is_punctuation_rule_def)

lemma exactly_one_category:
  "(is_spelling_rule r \<and> \<not> is_punctuation_rule r \<and> \<not> is_grammar_rule r)
   \<or> (\<not> is_spelling_rule r \<and> is_punctuation_rule r \<and> \<not> is_grammar_rule r)
   \<or> (\<not> is_spelling_rule r \<and> \<not> is_punctuation_rule r \<and> is_grammar_rule r)"
  by (auto simp: is_grammar_rule_def is_punctuation_rule_def)

text \<open>
  Claim C9: \<open>GrammarAnalyzer.analyze\<close> partitions the raw matches.  Each of the three
  lists holds, in order, the matches of its category; every rule id falls in exactly
  one category; so the three lengths add up to \<open>total_issues\<close>, the number of matches,
  and the counts of \<open>issue_breakdown\<close> are the three lengths.
\<close>

theorem grammar_analysis_partition:
  "spelling_issues (GrammarAnalyzer_analyze a text)
     = map issue_of_match (filter (\<lambda>m. is_spelling_rule (m_ruleId m)) (tool_check a text))
   \<and> punctuation_issues (GrammarAnalyzer_analyze a text)
     = map issue_of_match (filter (\<lambda>m. is_punctuation_rule (m_ruleId m)) (tool_check a text))
   \<and> grammar_issues (GrammarAnalyzer_analyze a text)
     = map issue_of_match (filter (\<lambda>m. is_grammar_rule (m_ruleId m)) (tool_check a text))
   \<and> (\<forall>r. (is_spelling_rule r \<and> \<not> is_punctuation_rule r \<and> \<not> is_grammar_rule r)
         \<or> (\<not> is_spelling_rule r \<and> is_punctuation_rule r \<and> \<not> is_grammar_rule r)
         \<or> (\<not> is_spelling_rule r \<and> \<not> is_punctuation_rule r \<and> is_grammar_rule r))
   \<and> total_issues (GrammarAnalyzer_analyze a text) = length (tool_check a text)
   \<and> length (grammar_issues (GrammarAnalyzer_analyze a text))
       + length (spelling_issues (GrammarAnalyzer_analyze a text))
       + length (punctuation_issues (GrammarAnalyzer_analyze a text))
     = total_issues (GrammarAnalyzer_analyze a text)
   \<and> bd_grammar (breakdown (GrammarAnalyzer_analyze a text))
     = length (grammar_issues (GrammarAnalyzer_analyze a text))
   \<and> bd_spelling (breakdown (GrammarAnalyzer_analyze a text))
     = length (spelling_issues (GrammarAnalyzer_analyze a text))
   \<and> bd_punctuation (breakdown (GrammarAnalyzer_analyze a text))
     = length (punctuation_issues (GrammarAnalyzer_analyze a text))"
  using exactly_one_category partition_lengths [of "tool_check a text"]
  by (simp add: GrammarAnalyzer_analyze_def Let_def categorize_filters)

lemma four_matches_rules:
  "map gi_rule (spelling_issues (GrammarAnalyzer_analyze \<lparr>tool_check = four_matches\<rparr> ''I saw teh cat ,and left''))
     = [''MORFOLOGIK_RULE_EN_US'', ''EN_MISSPELLED_PUNCT'']
   \<and> map gi_rule (punctuation_issues (GrammarAnalyzer_analyze \<lparr>tool_check = four_matches\<rparr> ''I saw teh cat ,and left''))
     = [''COMMA_PARENTHESIS_WHITESPACE'']
   \<and> map gi_rule (grammar_issues (GrammarAnalyzer_analyze \<lparr>tool_check = four_matches\<rparr> ''I saw teh cat ,and left''))
     = [''UPPERCASE_SENTENCE_START'']"
  by code_simp


theorem grammar_analysis_partition_witness:
  "map gi_rule (spelling_issues
      (GrammarAnalyzer_analyze \<lparr>tool_check = four_matches\<rparr> ''I saw teh cat ,and left''))
     = [''MORFOLOGIK_RULE_EN_US'', ''EN_MISSPELLED_PUNCT'']
   \<and> length (grammar_issues
        (GrammarAnalyzer_analyze \<lparr>tool_check = four_matches\<rparr> ''I saw teh cat ,and left''))
     + length (spelling_issues
        (GrammarAnalyzer_analyze \<lparr>tool_check = four_matches\<rparr> ''I saw teh cat ,and left''))
     + length (punctuation_issues
        (GrammarAnalyzer_analyze \<lparr>tool_check = four_matches\<rparr> ''I saw teh cat ,and left''))
     = 4
   \<and> total_issues
        (GrammarAnalyzer_analyze \<lparr>tool_check = four_matches\<rparr> ''I saw teh cat ,and left'') = 4"
proof -
  let ?A = "GrammarAnalyzer_analyze \<lparr>tool_check = four_matches\<rparr> ''I saw teh cat ,and left''"
  note p = grammar_analysis_partition
             [of "\<lparr>tool_check = four_matches\<rparr>" "''I saw teh cat ,and left''"]
  have n: "length (four_matches ''I saw teh cat ,and left'') = 4"
    by (simp add: four_matches_def)
  from p have t: "total_issues ?A = length (four_matches ''I saw teh cat ,and left'')"
    by simp
  from p have "length (grammar_issues ?A) + length (spelling_issues ?A)
               + length (punctuation_issues ?A) = total_issues ?A"
    by blast
  with t n four_matches_rules show ?thesis by simp
qed

section \<open>The fix validator\<close>

lemma validate_spelling_grammar:
  assumes "type issue = ''spelling'' \<or> type issue = ''grammar''"
  shows "validate_fix d original edited issue =
         check_spelling_grammar issue (find_all_issues d edited)"
  using assms by (auto simp: validate_fix_def check_improvement_def Let_def)

lemma validate_passive_voice:
  assumes "type issue = ''passive_voice''" and "quality_analyzer d = Some qa"
  shows "validate_fix d original edited issue = check_passive_voice qa edited issue"
  using assms by (simp add: validate_fix_def check_improvement_def Let_def)

lemma validate_poor_transitions:
  assumes "type issue = ''poor_transitions''" and "quality_analyzer d = Some qa"
  shows "validate_fix d original edited issue = check_poor_transitions qa edited issue"
  using assms by (simp add: validate_fix_def check_improvement_def Let_def)

text \<open>
  What the spelling and grammar branch computes, for a numeric baseline \<open>old\<close>: the new
  value is the number of issues of the type in a fresh \<open>find_all_issues\<close> of the edited
  snippet, and the test new < old comes before the test new = 0.
\<close>

lemma spelling_grammar_branch:
  assumes "type issue = ''spelling'' \<or> type issue = ''grammar''"
    and "num_of (dict_get (metrics issue) ''issue_count'' (MInt 0)) = Some old"
  shows "validate_fix d original edited issue =
         Inr (real (fresh_count d (type issue) edited) < old
                \<or> fresh_count d (type issue) edited = 0,
              (if real (fresh_count d (type issue) edited) < old
               then Fixed_Reduced (type issue) (dict_get (metrics issue) ''issue_count'' (MInt 0))
                      (fresh_count d (type issue) edited)
               else if fresh_count d (type issue) edited = 0
               then Perfect_None_Remaining (type issue)
               else Still_Remaining (fresh_count d (type issue) edited) (type issue)),
              before_after (dict_get (metrics issue) ''issue_count'' (MInt 0))
                (MInt (int (fresh_count d (type issue) edited))))"
  using assms(2)
  by (simp add: validate_spelling_grammar [OF assms(1)] check_spelling_grammar_def Let_def
      fresh_count_def issues_of_type_def)

text \<open>
  Claim C5: for a \<open>passive_voice\<close> issue whose baseline \<open>percentage\<close> is a number \<open>old\<close>,
  with the quality analyzer present and \<open>new\<close> the passive percentage of the edited
  snippet, \<open>validate_fix\<close> returns improved exactly when new < 10, or old - new > 3, or
  old - new > 0, and the tier is decided in that order (excellent, good, small, and no
  improvement otherwise).  In particular old = 15 and new = 11 give improved with the
  "good improvement" tier.
\<close>

theorem passive_voice_verdict:
  assumes "type issue = ''passive_voice''" and "quality_analyzer d = Some qa"
    and "num_of (dict_get (metrics issue) ''percentage'' (MInt 0)) = Some old"
  shows "validate_fix d original edited issue =
         Inr (fresh_passive_percentage qa edited < 10
                \<or> old - fresh_passive_percentage qa edited > 3
                \<or> old - fresh_passive_percentage qa edited > 0,
              (if fresh_passive_percentage qa edited < 10
               then Passive_Excellent (fresh_passive_percentage qa edited)
               else if old - fresh_passive_percentage qa edited > 3
               then Passive_Good_Improvement old (fresh_passive_percentage qa edited)
               else if old - fresh_passive_percentage qa edited > 0
               then Passive_Small_Improvement old (fresh_passive_percentage qa edited)
               else Passive_No_Improvement (fresh_passive_percentage qa edited)),
              before_after (dict_get (metrics issue) ''percentage'' (MInt 0))
                (MFloat (fresh_passive_percentage qa edited)))
         \<and> (old = 15 \<and> fresh_passive_percentage qa edited = 11 \<longrightarrow>
              validate_fix d original edited issue =
              Inr (True, Passive_Good_Improvement 15 11,
                   before_after (dict_get (metrics issue) ''percentage'' (MInt 0)) (MFloat 11)))"
  using assms(3)
  by (simp add: validate_passive_voice [OF assms(1,2)] check_passive_voice_def Let_def
      fresh_passive_percentage_def)

text \<open>
  Claim C6, as the code has it: for a \<open>poor_transitions\<close> issue whose baseline
  \<open>transition_count\<close> is a number \<open>old\<close>, with the quality analyzer present,
  \<open>validate_fix\<close> returns improved exactly when the fresh transition count of the edited
  text it was handed is at least the number of paragraphs of that same text, or
  exceeds the baseline.  The resolution loop hands it the edited snippet.
\<close>

theorem poor_transitions_verdict:
  assumes "type issue = ''poor_transitions''" and "quality_analyzer d = Some qa"
    and "num_of (dict_get (metrics issue) ''transition_count'' (MInt 0)) = Some old"
  shows "validate_fix d original edited issue =
         Inr (fresh_transition_count qa edited \<ge> length (paragraphs_of edited)
                \<or> real (fresh_transition_count qa edited) > old,
              (if fresh_transition_count qa edited \<ge> length (paragraphs_of edited)
               then Transitions_Great (fresh_transition_count qa edited)
               else if real (fresh_transition_count qa edited) > old
               then Transitions_Improved (dict_get (metrics issue) ''transition_count'' (MInt 0))
                      (fresh_transition_count qa edited)
               else Transitions_Still (fresh_transition_count qa edited)
                      (length (paragraphs_of edited))),
              before_after (dict_get (metrics issue) ''transition_count'' (MInt 0))
                (MInt (int (fresh_transition_count qa edited))))"
  using assms(3)
  by (simp add: validate_poor_transitions [OF assms(1,2)] check_poor_transitions_def Let_def
      fresh_transition_count_def)


lemma teh_found: "find_all_issues teh_detector ''I saw teh cat.'' = [teh_issue]"
  by code_simp

lemma teh_corrected: "fresh_count teh_detector ''spelling'' ''I saw the cat.'' = 0"
  by code_simp

text \<open>
  An issue of type spelling or grammar that the detector built carries a baseline of at
  least 1, so for these issues the "perfect" message is never given: a new count of 0
  is below the baseline and takes the "reduced" branch.
\<close>

lemma grammar_issue_baseline:
  assumes "j \<in> set (detect_grammar_issues a text)"
  shows "\<exists>n\<ge>1. metrics j = [(''issue_count'', MInt (int n))]"
proof -
  let ?an = "GrammarAnalyzer_analyze a text"
  from assms consider
      (s) g where "g \<in> set (take 5 (spelling_issues ?an))"
                  "j = spelling_issue (length (spelling_issues ?an)) g"
    | (g) g where "g \<in> set (take 5 (grammar_issues ?an))"
                  "j = grammar_issue_of (length (grammar_issues ?an)) g"
    by (auto simp: detect_grammar_issues_def Let_def)
  then show ?thesis
  proof cases
    case s
    from s(1) have "spelling_issues ?an \<noteq> []" by auto
    then have "length (spelling_issues ?an) \<ge> 1" by (simp add: Suc_le_eq)
    with s(2) show ?thesis by (auto simp: spelling_issue_def)
  next
    case g
    from g(1) have "grammar_issues ?an \<noteq> []" by auto
    then have "length (grammar_issues ?an) \<ge> 1" by (simp add: Suc_le_eq)
    with g(2) show ?thesis by (auto simp: grammar_issue_of_def)
  qed
qed

lemma detected_baseline_positive:
  assumes "issue \<in> set (find_all_issues d text)"
    and "type issue = ''spelling'' \<or> type issue = ''grammar''"
  shows "\<exists>n\<ge>1. dict_get (metrics issue) ''issue_count'' (MInt 0) = MInt (int n)"
proof -
  from assms(1) obtain j where j: "j \<in> set (collect_issues d text)"
    and i: "issue = j\<lparr>severity := score_issue j\<rparr>"
    by (auto simp: find_all_issues_mem)
  from i assms(2) have t: "type j = ''spelling'' \<or> type j = ''grammar''" by simp
  from j consider
      (g) a where "j \<in> set (detect_grammar_issues a text)"
    | (r) a where "j \<in> set (detect_readability_issues a text)"
    | (q) a where "j \<in> set (detect_quality_issues a text)"
    | (s) "j \<in> set (detect_structure_issues text)"
    by (auto simp: collect_issues_def split: option.splits)
  then show ?thesis
  proof cases
    case g
    from grammar_issue_baseline [OF g] i show ?thesis
      by (auto simp: dict_get_def)
  next
    case r
    from readability_types [OF r] t show ?thesis by auto
  next
    case q
    from quality_types [OF q] t show ?thesis by auto
  next
    case s
    from structure_types [OF s] t show ?thesis by auto
  qed
qed

lemma perfect_tier_unreachable:
  assumes "issue \<in> set (find_all_issues d text)"
    and "type issue = ''spelling'' \<or> type issue = ''grammar''"
  shows "validate_fix d' original edited issue \<noteq> Inr (b, Perfect_None_Remaining ty, m)"
proof -
  from detected_baseline_positive [OF assms] obtain n where n: "n \<ge> 1"
    and g: "dict_get (metrics issue) ''issue_count'' (MInt 0) = MInt (int n)"
    by blast
  from g have "num_of (dict_get (metrics issue) ''issue_count'' (MInt 0)) = Some (real n)"
    by simp
  from spelling_grammar_branch [OF assms(2) this, of d' original edited] n
  show ?thesis by (auto split: if_splits)
qed

text \<open>
  The new count is also capped: the detector builds at most five issues of a type,
  while the baseline is the number of all matches.  Six misspellings before the edit
  and six after it give a new count of 5 and the verdict "reduced from 6 to 5".
\<close>

lemma six_teh_found:
  "find_all_issues every_teh_detector six_teh = replicate 5 six_teh_issue"
  by code_simp

lemma new_count_capped_at_five:
  "validate_fix every_teh_detector six_teh six_teh_respaced six_teh_issue
     = Inr (True, Fixed_Reduced ''spelling'' (MInt 6) 5, before_after (MInt 6) (MInt 5))
   \<and> length (spelling_issues
        (GrammarAnalyzer_analyze \<lparr>tool_check = every_teh_check\<rparr> six_teh_respaced)) = 6"
proof -
  have "check_spelling_grammar six_teh_issue
          (find_all_issues every_teh_detector six_teh_respaced)
        = Inr (True, Fixed_Reduced ''spelling'' (MInt 6) 5, before_after (MInt 6) (MInt 5))"
    by code_simp
  moreover have "type six_teh_issue = ''spelling'' \<or> type six_teh_issue = ''grammar''"
    by (simp add: six_teh_issue_def)
  moreover have "length (spelling_issues
        (GrammarAnalyzer_analyze \<lparr>tool_check = every_teh_check\<rparr> six_teh_respaced)) = 6"
    by code_simp
  ultimately show ?thesis
    by (simp add: validate_spelling_grammar)
qed

text \<open>
  Claim C4 says that for a spelling or grammar issue the message is the "perfect, 0
  remaining" tier exactly when the new count reaches 0.  The code does otherwise on
  the issue its own detector finds in \<open>I saw teh cat.\<close>: after the misspelling is
  corrected the fresh count is 0, the edit counts as improved, and the message is the
  "reduced" tier, from 1 to 0.
\<close>

theorem spelling_zero_is_reduced_tier:
  "find_all_issues teh_detector ''I saw teh cat.'' = [teh_issue]
   \<and> fresh_count teh_detector ''spelling'' ''I saw the cat.'' = 0
   \<and> validate_fix teh_detector ''I saw teh cat.'' ''I saw the cat.'' teh_issue
     = Inr (True, Fixed_Reduced ''spelling'' (MInt 1) 0, before_after (MInt 1) (MInt 0))"
proof -
  have "check_spelling_grammar teh_issue (find_all_issues teh_detector ''I saw the cat.'')
        = Inr (True, Fixed_Reduced ''spelling'' (MInt 1) 0, before_after (MInt 1) (MInt 0))"
    by code_simp
  moreover have "type teh_issue = ''spelling'' \<or> type teh_issue = ''grammar''"
    by (simp add: teh_issue_def)
  ultimately show ?thesis
    by (simp add: validate_spelling_grammar teh_corrected teh_found)
qed

lemma analyze_passive:
  "passive_voice (WritingQualityAnalyzer_analyze a text) = detect_passive_voice (nlp a text)"
  by (simp add: WritingQualityAnalyzer_analyze_def Let_def)

lemma eleven_percent: "pv_percentage (detect_passive_voice eleven_of_hundred) = 11"
  by code_simp

theorem passive_voice_verdict_witness:
  "type passive_issue_15 = ''passive_voice''
   \<and> quality_analyzer (quality_only (fixed_nlp eleven_of_hundred))
     = Some (fixed_nlp eleven_of_hundred)
   \<and> num_of (dict_get (metrics passive_issue_15) ''percentage'' (MInt 0)) = Some 15
   \<and> fresh_passive_percentage (fixed_nlp eleven_of_hundred) ''edited'' = 11
   \<and> validate_fix (quality_only (fixed_nlp eleven_of_hundred)) ''original'' ''edited''
        passive_issue_15
     = Inr (True, Passive_Good_Improvement 15 11, before_after (MFloat 15) (MFloat 11))"
proof -
  have h1: "type passive_issue_15 = ''passive_voice''"
    by (simp add: passive_issue_15_def bare_issue_def)
  have h2: "quality_analyzer (quality_only (fixed_nlp eleven_of_hundred))
            = Some (fixed_nlp eleven_of_hundred)"
    by (simp add: quality_only_def)
  have g: "dict_get (metrics passive_issue_15) ''percentage'' (MInt 0) = MFloat 15"
    by (simp add: passive_issue_15_def dict_get_def)
  then have h3: "num_of (dict_get (metrics passive_issue_15) ''percentage'' (MInt 0)) = Some 15"
    by simp
  have n: "fresh_passive_percentage (fixed_nlp eleven_of_hundred) ''edited'' = 11"
    by (simp add: fresh_passive_percentage_def analyze_passive fixed_nlp_def eleven_percent)
  from passive_voice_verdict [OF h1 h2 h3, of "''original''" "''edited''"]
  show ?thesis using h1 h2 h3 n by (simp add: g)
qed

lemma transitions_found:
  "find_all_issues (quality_only \<lparr>nlp = line_nlp\<rparr>) three_paragraphs = [transitions_issue]"
  by code_simp

lemma transitions_issue_fields:
  "type transitions_issue = ''poor_transitions''"
  "issue_context transitions_issue = ''1 transitions in 3 paragraphs''"
  "description transitions_issue = ''Few transition words between ideas''"
  "dict_get (metrics transitions_issue) ''transition_count'' (MInt 0) = MInt 1"
  by code_simp+

lemma however_counts:
  "fresh_transition_count \<lparr>nlp = line_nlp\<rparr> ''however'' = 1"
  "length (paragraphs_of ''however'') = 1"
  "length (paragraphs_of three_paragraphs) = 3"
  by code_simp+

theorem poor_transitions_verdict_witness:
  "type transitions_issue = ''poor_transitions''
   \<and> quality_analyzer (quality_only \<lparr>nlp = line_nlp\<rparr>) = Some \<lparr>nlp = line_nlp\<rparr>
   \<and> num_of (dict_get (metrics transitions_issue) ''transition_count'' (MInt 0)) = Some 1
   \<and> validate_fix (quality_only \<lparr>nlp = line_nlp\<rparr>) ''1 transitions in 3 paragraphs''
        ''however'' transitions_issue
     = Inr (True, Transitions_Great 1, before_after (MInt 1) (MInt 1))"
proof -
  have h1: "type transitions_issue = ''poor_transitions''"
    by (rule transitions_issue_fields)
  have h2: "quality_analyzer (quality_only \<lparr>nlp = line_nlp\<rparr>) = Some \<lparr>nlp = line_nlp\<rparr>"
    by (simp add: quality_only_def)
  have h3: "num_of (dict_get (metrics transitions_issue) ''transition_count'' (MInt 0)) = Some 1"
    by (simp add: transitions_issue_fields)
  from poor_transitions_verdict [OF h1 h2 h3, of "''1 transitions in 3 paragraphs''" "''however''"]
  show ?thesis using h1 h2 h3 by (simp add: however_counts transitions_issue_fields)
qed


section \<open>The resolution loop\<close>

lemma however_saved: "edit_text_inline however_editor text desc = Some ''however''"
proof -
  have "remove_instruction_lines ''however'' = ''however''" by code_simp
  then show ?thesis by (simp add: edit_text_inline_def however_editor_def)
qed

lemma context_not_in_document:
  "replace_first ''1 transitions in 3 paragraphs'' ''however'' three_paragraphs
   = three_paragraphs"
  by code_simp

lemma however_validated:
  "validate_fix (quality_only \<lparr>nlp = line_nlp\<rparr>) ''1 transitions in 3 paragraphs''
     ''however'' transitions_issue
   = Inr (True, Transitions_Great 1, before_after (MInt 1) (MInt 1))"
proof -
  have "check_poor_transitions \<lparr>nlp = line_nlp\<rparr> ''however'' transitions_issue
        = Inr (True, Transitions_Great 1, before_after (MInt 1) (MInt 1))"
    by code_simp
  then show ?thesis
    by (simp add: validate_poor_transitions [of _ _ "\<lparr>nlp = line_nlp\<rparr>"]
        transitions_issue_fields quality_only_def)
qed

text \<open>
  The user answers the issue found in the three-paragraph document with the snippet
  \<open>however\<close>.  The working text keeps its three paragraphs, the fresh transition count
  is 1 and the baseline is 1, so the edit is not an improvement as claim C6 is stated;
  the validator counts the one paragraph of the snippet and the edit counts as fixed.
\<close>

theorem transitions_judged_on_snippet:
  "edit_inline_branch however_editor transitions_issue transitions_coach
     = Inr transitions_coach_after
   \<and> fixed_count transitions_coach_after = 1
   \<and> coached_text transitions_coach_after = three_paragraphs
   \<and> fresh_transition_count \<lparr>nlp = line_nlp\<rparr> ''however'' = 1
   \<and> num_of (dict_get (metrics transitions_issue) ''transition_count'' (MInt 0)) = Some 1
   \<and> \<not> claimed_transitions_improved (fresh_transition_count \<lparr>nlp = line_nlp\<rparr> ''however'')
          (coached_text transitions_coach_after) 1"
proof -
  have b: "edit_inline_branch however_editor transitions_issue transitions_coach
           = Inr transitions_coach_after"
    by (simp add: edit_inline_branch_def however_saved transitions_issue_fields
        transitions_coach_def transitions_coach_after_def context_not_in_document
        however_validated Let_def)
  have c: "coached_text transitions_coach_after = three_paragraphs"
    by (simp add: transitions_coach_after_def transitions_coach_def)
  have f: "fixed_count transitions_coach_after = 1"
    by (simp add: transitions_coach_after_def)
  show ?thesis
    by (simp add: b c f however_counts transitions_issue_fields
        claimed_transitions_improved_def)
qed

lemma edit_inline_unchanged:
  assumes "edit_text_inline editor (issue_context issue) (description issue) = None
           \<or> edit_text_inline editor (issue_context issue) (description issue)
             = Some (issue_context issue)"
  shows "edit_inline_branch editor issue c = Inr c"
  using assms by (auto simp: edit_inline_branch_def)

text \<open>
  Claim C8: in the \<open>edit_inline\<close> branch, when the editor returns no text or a text
  equal to \<open>issue.context\<close>, the coach is left as it was: the working text, the fixed
  and skipped counters and the log of validator calls are unchanged, and the loop goes
  on to the next issue.
\<close>

theorem noop_edit_changes_nothing:
  assumes "edit_text_inline editor (issue_context issue) (description issue) = None
           \<or> edit_text_inline editor (issue_context issue) (description issue)
             = Some (issue_context issue)"
  shows "edit_inline_branch editor issue c = Inr c
         \<and> (user i issue = Edit_inline editor \<longrightarrow>
              present_issues user i (issue # rest) c = present_issues user (i + 1) rest c)"
  using edit_inline_unchanged [OF assms] by simp

lemma unchanged_saved:
  "edit_text_inline unchanged_editor (issue_context teh_issue) (description teh_issue)
   = Some (issue_context teh_issue)"
proof -
  have "remove_instruction_lines
          (instruction_header (description teh_issue) @ issue_context teh_issue)
        = issue_context teh_issue"
    by code_simp
  moreover have "issue_context teh_issue \<noteq> []"
    by (simp add: teh_issue_def)
  ultimately show ?thesis
    by (simp add: edit_text_inline_def unchanged_editor_def)
qed

theorem noop_edit_changes_nothing_witness:
  "edit_text_inline unchanged_editor (issue_context teh_issue) (description teh_issue)
     = Some (issue_context teh_issue)
   \<and> edit_inline_branch unchanged_editor teh_issue transitions_coach = Inr transitions_coach
   \<and> present_issues (\<lambda>i issue. Edit_inline unchanged_editor) 1 [teh_issue] transitions_coach
     = Inr (True, transitions_coach)"
  using noop_edit_changes_nothing [of unchanged_editor teh_issue transitions_coach
          "\<lambda>i issue. Edit_inline unchanged_editor" 1 "[]"]
        unchanged_saved
  by simp

section \<open>Inline editing\<close>

lemma split_acc_not_Nil: "split_sep_acc sep s cur \<noteq> []"
  by (induction sep s cur rule: split_sep_acc.induct) auto

lemma join_Cons: "xs \<noteq> [] \<Longrightarrow> join sep (x # xs) = x @ sep @ join sep xs"
  by (cases xs) auto

lemma split_lines_line: "CHR 0x0A \<notin> set l \<Longrightarrow>
  split_sep_acc [CHR 0x0A] (l @ rest) cur = split_sep_acc [CHR 0x0A] rest (cur @ l)"
  by (induction l arbitrary: cur) auto

lemma split_lines_break:
  "split_sep_acc [CHR 0x0A] (CHR 0x0A # rest) cur = cur # split_sep_acc [CHR 0x0A] rest []"
  by simp

lemma split_join_lines:
  assumes "ls \<noteq> []" and "\<forall>l \<in> set ls. CHR 0x0A \<notin> set l"
  shows "split_sep_acc [CHR 0x0A] (join [CHR 0x0A] ls) cur = (cur @ hd ls) # tl ls"
  using assms
proof (induction ls arbitrary: cur)
  case Nil
  then show ?case by simp
next
  case (Cons x xs)
  show ?case
  proof (cases xs)
    case Nil
    from Cons.prems have "CHR 0x0A \<notin> set x" by simp
    from split_lines_line [OF this, of "[]" cur] Nil show ?thesis by simp
  next
    case (Cons y ys)
    from Cons.prems have x: "CHR 0x0A \<notin> set x" and xs: "\<forall>l \<in> set xs. CHR 0x0A \<notin> set l"
      by simp_all
    have "split_sep_acc [CHR 0x0A] (join [CHR 0x0A] (x # xs)) cur
          = split_sep_acc [CHR 0x0A] (x @ CHR 0x0A # join [CHR 0x0A] xs) cur"
      using Cons by simp
    also have "\<dots> = split_sep_acc [CHR 0x0A] (CHR 0x0A # join [CHR 0x0A] xs) (cur @ x)"
      by (rule split_lines_line [OF x])
    also have "\<dots> = (cur @ x) # split_sep_acc [CHR 0x0A] (join [CHR 0x0A] xs) []"
      by (rule split_lines_break)
    also have "split_sep_acc [CHR 0x0A] (join [CHR 0x0A] xs) [] = ([] @ hd xs) # tl xs"
      using Cons xs by (intro Cons.IH) simp_all
    finally show ?thesis using Cons by simp
  qed
qed

lemma split_acc_no_break:
  "CHR 0x0A \<notin> set cur \<Longrightarrow> \<forall>l \<in> set (split_sep_acc [CHR 0x0A] s cur). CHR 0x0A \<notin> set l"
proof (induction s arbitrary: cur)
  case Nil
  then show ?case by simp
next
  case (Cons c s)
  show ?case
  proof (cases "c = CHR 0x0A")
    case True
    from Cons.IH [of "[]"]
    have "\<forall>l \<in> set (split_sep_acc [CHR 0x0A] s []). CHR 0x0A \<notin> set l"
      by simp
    with Cons.prems True show ?thesis by simp
  next
    case False
    with Cons.prems have "CHR 0x0A \<notin> set (cur @ [c])" by auto
    from Cons.IH [OF this] False show ?thesis by simp
  qed
qed

lemma join_split_acc: "join [CHR 0x0A] (split_sep_acc [CHR 0x0A] s cur) = cur @ s"
  by (induction s arbitrary: cur) (auto simp: join_Cons split_acc_not_Nil)

lemma split_lines_are_lines:
  "join [CHR 0x0A] (split_lines s) = s \<and> (\<forall>l \<in> set (split_lines s). CHR 0x0A \<notin> set l)"
  using split_acc_no_break [of "[]" s] by (simp add: split_lines_def join_split_acc)

lemma split_lines_join:
  "ls \<noteq> [] \<Longrightarrow> \<forall>l \<in> set ls. CHR 0x0A \<notin> set l \<Longrightarrow> split_lines (join [CHR 0x0A] ls) = ls"
  using split_join_lines [of ls "[]"] by (simp add: split_lines_def)

lemma strip_blank:
  assumes "list_all isspace s"
  shows "strip s = []"
proof -
  from assms have e: "dropWhile isspace s = []"
    by (simp add: list_all_iff)
  show ?thesis unfolding strip_def e by simp
qed

lemma join_blank_sep:
  "list_all isspace sep \<Longrightarrow> list_all (list_all isspace) ls \<Longrightarrow> list_all isspace (join sep ls)"
  by (induction sep ls rule: join.induct) simp_all

lemma join_blank:
  "list_all (list_all isspace) ls \<Longrightarrow> list_all isspace (join [CHR 0x0A] ls)"
  by (rule join_blank_sep) (simp_all add: isspace_def)

lemma strip_ends:
  assumes "strip s \<noteq> []"
  shows "\<not> isspace (hd (strip s)) \<and> \<not> isspace (last (strip s))"
proof -
  let ?t = "dropWhile isspace s"
  have t: "?t = strip s @ rev (takeWhile isspace (rev ?t))"
    unfolding strip_def by (metis rev_append rev_rev_ident takeWhile_dropWhile_id)
  have n: "?t \<noteq> []"
  proof
    assume e: "?t = []"
    have "strip s = []" unfolding strip_def e by simp
    with assms show False by simp
  qed
  then have "\<not> isspace (hd ?t)" by (rule hd_dropWhile)
  moreover from t assms have "hd ?t = hd (strip s)" by (metis hd_append2)
  ultimately have h: "\<not> isspace (hd (strip s))" by simp
  from assms have d: "dropWhile isspace (rev ?t) \<noteq> []" by (simp add: strip_def)
  then have "\<not> isspace (hd (dropWhile isspace (rev ?t)))" by (rule hd_dropWhile)
  with d have "\<not> isspace (last (strip s))" by (simp add: strip_def last_rev)
  with h show ?thesis ..
qed

lemma remove_instruction_lines_idem:
  "remove_instruction_lines
     (join [CHR 0x0A] (filter (\<lambda>line. \<not> prefix ''#'' line) (split_lines saved)))
   = remove_instruction_lines saved"
proof (cases "filter (\<lambda>line. \<not> prefix ''#'' line) (split_lines saved) = []")
  case True
  then show ?thesis
    by (simp add: remove_instruction_lines_def Let_def split_lines_def strip_def)
next
  case False
  let ?kept = "filter (\<lambda>line. \<not> prefix ''#'' line) (split_lines saved)"
  have "\<forall>l \<in> set ?kept. CHR 0x0A \<notin> set l"
    using split_lines_are_lines [of saved] by simp
  with False have "split_lines (join [CHR 0x0A] ?kept) = ?kept"
    by (rule split_lines_join)
  then show ?thesis
    by (simp add: remove_instruction_lines_def Let_def)
qed

lemma remove_instruction_lines_blank:
  assumes "list_all (\<lambda>l. prefix ''#'' l \<or> list_all isspace l) (split_lines saved)"
  shows "remove_instruction_lines saved = []"
proof -
  from assms
  have "list_all (list_all isspace) (filter (\<lambda>line. \<not> prefix ''#'' line) (split_lines saved))"
    by (auto simp: list_all_iff)
  then show ?thesis
    by (simp add: remove_instruction_lines_def Let_def strip_blank join_blank)
qed

text \<open>
  Claim C10: when the editor session ends with a saved text, \<open>edit_text_inline\<close> returns
  the lines of it that do not begin with \<open>#\<close>, joined again and stripped of leading
  and trailing whitespace, and \<open>None\<close> when nothing is left.  A returned text is not
  empty and neither starts nor ends with whitespace.  If every line of the saved text
  begins with \<open>#\<close> or is whitespace only, the result is \<open>None\<close>.  The lines that begin
  with \<open>#\<close> make no difference: the result is the one for the saved text without them,
  so a content line such as a Markdown heading is dropped from the edit.
\<close>

theorem edit_text_inline_drops_hash_lines:
  assumes "editor (instruction_header issue_description @ text) = Saved saved"
  shows "edit_text_inline editor text issue_description
         = (if strip (join [CHR 0x0A]
                  (filter (\<lambda>line. \<not> prefix ''#'' line) (split_lines saved))) = []
            then None
            else Some (strip (join [CHR 0x0A]
                  (filter (\<lambda>line. \<not> prefix ''#'' line) (split_lines saved)))))
       \<and> (\<forall>e. edit_text_inline editor text issue_description = Some e \<longrightarrow>
              e \<noteq> [] \<and> \<not> isspace (hd e) \<and> \<not> isspace (last e))
       \<and> (list_all (\<lambda>l. prefix ''#'' l \<or> list_all isspace l) (split_lines saved) \<longrightarrow>
              edit_text_inline editor text issue_description = None)
       \<and> edit_text_inline editor text issue_description
         = edit_text_inline
             (\<lambda>initial. Saved (join [CHR 0x0A]
                (filter (\<lambda>line. \<not> prefix ''#'' line) (split_lines saved))))
             text issue_description"
proof -
  have a: "edit_text_inline editor text issue_description
           = (if remove_instruction_lines saved = [] then None
              else Some (remove_instruction_lines saved))"
    using assms by (simp add: edit_text_inline_def Let_def)
  have b: "\<forall>e. edit_text_inline editor text issue_description = Some e \<longrightarrow>
              e \<noteq> [] \<and> \<not> isspace (hd e) \<and> \<not> isspace (last e)"
    using strip_ends [of "join [CHR 0x0A]
        (filter (\<lambda>line. \<not> prefix ''#'' line) (split_lines saved))"]
    by (auto simp: a remove_instruction_lines_def Let_def split: if_splits)
  have c: "list_all (\<lambda>l. prefix ''#'' l \<or> list_all isspace l) (split_lines saved) \<longrightarrow>
              edit_text_inline editor text issue_description = None"
    by (simp add: a remove_instruction_lines_blank)
  have d: "edit_text_inline editor text issue_description
         = edit_text_inline
             (\<lambda>initial. Saved (join [CHR 0x0A]
                (filter (\<lambda>line. \<not> prefix ''#'' line) (split_lines saved))))
             text issue_description"
    using assms by (simp add: edit_text_inline_def Let_def remove_instruction_lines_idem)
  have a': "edit_text_inline editor text issue_description
         = (if strip (join [CHR 0x0A]
                  (filter (\<lambda>line. \<not> prefix ''#'' line) (split_lines saved))) = []
            then None
            else Some (strip (join [CHR 0x0A]
                  (filter (\<lambda>line. \<not> prefix ''#'' line) (split_lines saved)))))"
    unfolding a by (simp add: remove_instruction_lines_def Let_def)
  from a' b c d show ?thesis by (intro conjI)
qed

lemma heading_dropped:
  "edit_text_inline heading_editor ''The cat sat'' ''spelling'' = Some ''The cat sat.''"
proof -
  have "remove_instruction_lines (''# Fix: spelling'' @ [CHR 0x0A] @ ''# Results'' @ [CHR 0x0A]
            @ ''  The cat sat.  '' @ [CHR 0x0A]) = ''The cat sat.''"
    by code_simp
  then show ?thesis by (simp add: edit_text_inline_def heading_editor_def)
qed

lemma blank_lines:
  "split_lines (''# Fix: spelling'' @ [CHR 0x0A] @ ''   '' @ [CHR 0x0A] @ ''#'' @ [CHR 0x0A])
   = [''# Fix: spelling'', ''   '', ''#'', '''']"
  by code_simp

theorem edit_text_inline_drops_hash_lines_witness:
  "heading_editor (instruction_header ''spelling'' @ ''The cat sat'')
     = Saved (''# Fix: spelling'' @ [CHR 0x0A] @ ''# Results'' @ [CHR 0x0A]
              @ ''  The cat sat.  '' @ [CHR 0x0A])
   \<and> edit_text_inline heading_editor ''The cat sat'' ''spelling'' = Some ''The cat sat.''
   \<and> blank_editor (instruction_header ''spelling'' @ ''The cat sat'')
     = Saved (''# Fix: spelling'' @ [CHR 0x0A] @ ''   '' @ [CHR 0x0A] @ ''#'' @ [CHR 0x0A])
   \<and> list_all (\<lambda>l. prefix ''#'' l \<or> list_all isspace l)
        (split_lines (''# Fix: spelling'' @ [CHR 0x0A] @ ''   '' @ [CHR 0x0A] @ ''#''
                      @ [CHR 0x0A]))
   \<and> edit_text_inline blank_editor ''The cat sat'' ''spelling'' = None"
proof -
  have h1: "heading_editor (instruction_header ''spelling'' @ ''The cat sat'')
     = Saved (''# Fix: spelling'' @ [CHR 0x0A] @ ''# Results'' @ [CHR 0x0A]
              @ ''  The cat sat.  '' @ [CHR 0x0A])"
    by (simp add: heading_editor_def)
  have h2: "blank_editor (instruction_header ''spelling'' @ ''The cat sat'')
     = Saved (''# Fix: spelling'' @ [CHR 0x0A] @ ''   '' @ [CHR 0x0A] @ ''#'' @ [CHR 0x0A])"
    by (simp add: blank_editor_def)
  have h3: "list_all (\<lambda>l. prefix ''#'' l \<or> list_all isspace l)
        (split_lines (''# Fix: spelling'' @ [CHR 0x0A] @ ''   '' @ [CHR 0x0A] @ ''#''
                      @ [CHR 0x0A]))"
    unfolding blank_lines by (simp add: isspace_def)
  from edit_text_inline_drops_hash_lines
         [of blank_editor "''spelling''" "''The cat sat''", OF h2] h3
  have "edit_text_inline blank_editor ''The cat sat'' ''spelling'' = None"
    by blast
  with h1 h2 h3 heading_dropped show ?thesis by blast
qed

end
